theory Spec2Isabelle
  imports Main
begin

section \<open>Maker wealth: data model\<close>

text \<open>
  The service \<^verbatim>\<open>backend/src/service/maker_wealth.ts\<close> builds, for one maker address,
  the list of chains and tokens to query (\<^verbatim>\<open>getWealthsChains\<close>), fetches every balance
  (\<^verbatim>\<open>getTokenBalance\<close>, \<^verbatim>\<open>getWealths\<close>) and stores the result (\<^verbatim>\<open>saveWealths\<close>).

  JavaScript strings are modelled as \<^typ>\<open>string\<close>, the optional field
  \<^verbatim>\<open>value?: string\<close> as \<^typ>\<open>string option\<close> (\<open>None\<close> is \<^verbatim>\<open>undefined\<close>), chain ids as
  \<^typ>\<open>int\<close> and the decimals of a token as \<^typ>\<open>nat\<close>.
\<close>

text \<open>One row of the maker list returned by \<^verbatim>\<open>getMakerList()\<close>; only the fields the
  service reads.\<close>

record MakerPairEntry =
  makerAddress :: string
  c1ID :: int
  c2ID :: int
  c1Name :: string
  c2Name :: string
  t1Address :: string
  t2Address :: string
  tName :: string
  precision :: nat

text \<open>An element of \<^verbatim>\<open>WealthsChain.balances\<close>. The field \<^verbatim>\<open>value\<close> is called
  \<open>slot_value\<close> here.\<close>

record BalanceSlot =
  tokenAddress :: string
  tokenName :: string
  slot_value :: "string option"
  decimals :: nat

text \<open>The type \<^verbatim>\<open>WealthsChain\<close>; its field \<^verbatim>\<open>makerAddress\<close> is called \<open>wcMakerAddress\<close>,
  the name \<open>makerAddress\<close> being the registry row's.\<close>

record WealthsChain =
  chainId :: int
  chainName :: string
  wcMakerAddress :: string
  balances :: "BalanceSlot list"

text \<open>
  What the service imports from modules that are not among the sources: the table
  \<^verbatim>\<open>CHAIN_INDEX\<close> (chain id to chain family, \<open>None\<close> where the table has no entry), the
  predicate \<^verbatim>\<open>isEthTokenAddress\<close>, the configuration \<^verbatim>\<open>makerConfig\<close>, and helpers that
  do no I/O. They are parameters of the model:
  \<^item> \<open>httpEndPoint e chainName\<close> is \<^verbatim>\<open>makerConfig[chainName]?.httpEndPoint\<close>;
  \<^item> \<open>getNetworkIdByChainId\<close> (of the starknet helper) may throw, \<open>Inl\<close> its message;
  \<^item> \<open>getApiKeyCredentials\<close> is \<^verbatim>\<open>DydxHelper.getApiKeyCredentials\<close>, \<open>None\<close> a falsy result;
  \<^item> \<open>js_minus3 a b c\<close> is the string \<^verbatim>\<open>a - b - c + ''\<close> of JavaScript's floating-point
    numbers;
  \<^item> \<open>BigNumber_dividedBy_pow10 v d\<close> is the string
    \<^verbatim>\<open>new BigNumber(v).dividedBy(10 ** d).toString()\<close> of the library bignumber.js.
\<close>

record env =
  CHAIN_INDEX :: "int \<Rightarrow> string option"
  isEthTokenAddress :: "string \<Rightarrow> bool"
  zksync_endPoint :: string
  zksync_test_endPoint :: string
  loopring_endPoint :: string
  loopring_test_endPoint :: string
  httpEndPoint :: "string \<Rightarrow> string option"
  getNetworkIdByChainId :: "int \<Rightarrow> string + int"
  getApiKeyCredentials :: "string \<Rightarrow> string option"
  js_minus3 :: "string \<Rightarrow> string \<Rightarrow> string \<Rightarrow> string"
  BigNumber_dividedBy_pow10 :: "string \<Rightarrow> nat \<Rightarrow> string"

datatype ServiceErrorCodes = arguments_invalid

text \<open>A rejected promise of the service: the \<^verbatim>\<open>ServiceError\<close> it throws itself, or
  the error of an external call it does not catch (with its message).\<close>

datatype error = ServiceError string ServiceErrorCodes | Rejected string

section \<open>Request shaping: \<^verbatim>\<open>getWealthsChains\<close>\<close>

text \<open>JavaScript truthiness of a string: only the empty string is falsy.\<close>

definition truthy :: "string \<Rightarrow> bool" where
  "truthy s = (s \<noteq> [])"

text \<open>\<^verbatim>\<open>Array.prototype.find\<close> is \<^const>\<open>List.find\<close>; where the source goes on to mutate
  the element found, the model needs its position.\<close>

fun findIndex :: "('a \<Rightarrow> bool) \<Rightarrow> 'a list \<Rightarrow> nat option" where
  "findIndex P [] = None"
| "findIndex P (x # xs) = (if P x then Some 0 else map_option Suc (findIndex P xs))"

definition pushToChainBalances ::
  "WealthsChain \<Rightarrow> string \<Rightarrow> string \<Rightarrow> nat \<Rightarrow> WealthsChain" where
  "pushToChainBalances wChain tAddress tNm dec =
     (case List.find (\<lambda>item. tokenAddress item = tAddress) (balances wChain) of
        Some _ \<Rightarrow> wChain
      | None \<Rightarrow> wChain\<lparr>balances := balances wChain @
          [\<lparr>tokenAddress = tAddress, tokenName = tNm, slot_value = Some [], decimals = dec\<rparr>]\<rparr>)"

text \<open>\<^verbatim>\<open>pushToChains\<close> returns a reference into \<^verbatim>\<open>wealthsChains\<close>: here the list
  (extended when the chain is new) and the position of the chain in it.\<close>

definition pushToChains ::
  "WealthsChain list \<Rightarrow> string \<Rightarrow> int \<Rightarrow> string \<Rightarrow> WealthsChain list \<times> nat" where
  "pushToChains wealthsChains mAddress cId cName =
     (case findIndex (\<lambda>item. chainId item = cId) wealthsChains of
        Some i \<Rightarrow> (wealthsChains, i)
      | None \<Rightarrow> (wealthsChains @
          [\<lparr>chainId = cId, chainName = cName, wcMakerAddress = mAddress, balances = []\<rparr>],
          length wealthsChains))"

text \<open>One call \<^verbatim>\<open>pushToChainBalances(pushToChains(...), ...)\<close>.\<close>

definition pushLeg ::
  "WealthsChain list \<Rightarrow> string \<Rightarrow> int \<Rightarrow> string \<Rightarrow> string \<Rightarrow> string \<Rightarrow> nat \<Rightarrow> WealthsChain list"
  where
  "pushLeg wealthsChains mAddress cId cName tAddress tNm dec =
     (case pushToChains wealthsChains mAddress cId cName of
        (ws, i) \<Rightarrow> ws[i := pushToChainBalances (ws ! i) tAddress tNm dec])"

text \<open>The body of the first loop, for one row of the maker list.\<close>

definition scanEntry :: "string \<Rightarrow> WealthsChain list \<Rightarrow> MakerPairEntry \<Rightarrow> WealthsChain list" where
  "scanEntry mAddress wealthsChains item =
     (if makerAddress item \<noteq> mAddress then wealthsChains
      else pushLeg
             (pushLeg wealthsChains (makerAddress item) (c1ID item) (c1Name item)
                (t1Address item) (tName item) (precision item))
             (makerAddress item) (c2ID item) (c2Name item)
             (t2Address item) (tName item) (precision item))"

definition scanMakerList :: "string \<Rightarrow> MakerPairEntry list \<Rightarrow> WealthsChain list" where
  "scanMakerList mAddress makerList = foldl (scanEntry mAddress) [] makerList"

text \<open>The second loop. \<open>clearEth\<close> is the \<^verbatim>\<open>find\<close> followed by the assignment
  \<^verbatim>\<open>ethBalancesItem.tokenAddress = ''\<close>: the first slot that is empty or an ETH address is
  rewritten, \<open>None\<close> when \<^verbatim>\<open>find\<close> returns \<^verbatim>\<open>undefined\<close>.\<close>

definition isEthSlot :: "env \<Rightarrow> BalanceSlot \<Rightarrow> bool" where
  "isEthSlot e item2 =
     (if truthy (tokenAddress item2) then isEthTokenAddress e (tokenAddress item2) else True)"

fun clearEth :: "env \<Rightarrow> BalanceSlot list \<Rightarrow> BalanceSlot list option" where
  "clearEth e [] = None"
| "clearEth e (b # bs) =
     (if isEthSlot e b then Some (b\<lparr>tokenAddress := []\<rparr> # bs)
      else map_option ((#) b) (clearEth e bs))"

definition ethSlot :: "env \<Rightarrow> int \<Rightarrow> BalanceSlot" where
  "ethSlot e cId =
     \<lparr>tokenAddress = [],
      tokenName = (if CHAIN_INDEX e cId = Some ''polygon'' then ''MATIC'' else ''ETH''),
      slot_value = Some [], decimals = 18\<rparr>"

definition addEth :: "env \<Rightarrow> WealthsChain \<Rightarrow> WealthsChain" where
  "addEth e item =
     (case clearEth e (balances item) of
        Some bs \<Rightarrow> item\<lparr>balances := bs\<rparr>
      | None \<Rightarrow> item\<lparr>balances := ethSlot e (chainId item) # balances item\<rparr>)"

text \<open>Both loops, on a maker list already read.\<close>

definition shapeChains :: "env \<Rightarrow> MakerPairEntry list \<Rightarrow> string \<Rightarrow> WealthsChain list" where
  "shapeChains e makerList mAddress = map (addEth e) (scanMakerList mAddress makerList)"

section \<open>The outside world\<close>

text \<open>
  Every external call of the service is a request; the world answers it, with a value or
  by throwing (\<open>Inl\<close> the message of the error). The answers are functions of the request,
  so that the order in which concurrent promises run does not matter to the result.
\<close>

text \<open>The body of the zksync answer: \<^verbatim>\<open>status\<close> and \<^verbatim>\<open>result?.balances\<close>, a table from
  token symbols to balances.\<close>

record zksyncData =
  zk_status :: string
  zk_balances :: "(string \<times> string) list option"

record loopringAccountInfo =
  la_status :: int
  la_statusText :: string
  la_accountId :: "int option"

text \<open>An element of loopring's balance array; a field is \<open>None\<close> when it is missing.\<close>

record loopringBalance =
  total :: "string option"
  locked :: "string option"
  withDraw :: "string option"

text \<open>The \<^verbatim>\<open>data\<close> of loopring's answer: an array (an element \<open>None\<close> is \<^verbatim>\<open>null\<close>), or
  something that is no array and has no element \<^verbatim>\<open>0\<close> (\<^verbatim>\<open>null\<close>, an object).\<close>

datatype loopringData = LrNotArray | LrArray "loopringBalance option list"

record loopringBalanceData =
  lb_status :: int
  lb_statusText :: string
  lb_data :: loopringData

text \<open>An element of \<^verbatim>\<open>resp.tokenBalances\<close> of Alchemy's \<^verbatim>\<open>getTokenBalances\<close>.\<close>

record tokenBalanceItem =
  tb_error :: "string option"
  tb_tokenBalance :: "string option"

text \<open>The row \<^verbatim>\<open>saveWealths\<close> inserts.\<close>

record MakerWealthRow =
  row_makerAddress :: string
  row_tokenAddress :: string
  row_chainId :: int
  row_balance :: "string option"
  row_decimals :: nat

datatype request =
    GetMakerList
  | ZksyncCommitted string string
  | LoopringAccount string string
  | LoopringBalances string "int option"
  | StarknetErc20Balance string string int
  | ImxBalanceBySymbol int string string
  | MetisBalanceOf "string option" string string
  | Web3GetBalance "string option" string
  | DydxGetClient int string
  | DydxGetBalanceUsdc int string
  | AlchemyGetBalance string string
  | AlchemyGetTokenBalances string string "string list"
  | RepositoryInsert MakerWealthRow

text \<open>What the service does to the outside: a request, or a line of the error log
  (chain id, maker address, token name, message).\<close>

datatype io_event = Call request | ErrorLog int string string string

record world =
  getMakerList :: "string + MakerPairEntry list"
  axios_zksync :: "string \<Rightarrow> string \<Rightarrow> string + zksyncData"
  axios_loopring_account :: "string \<Rightarrow> string \<Rightarrow> string + loopringAccountInfo"
  axios_loopring_balances :: "string \<Rightarrow> int option \<Rightarrow> string + loopringBalanceData"
  getErc20BalanceByL1 :: "string \<Rightarrow> string \<Rightarrow> int \<Rightarrow> string + string"
  imx_getBalanceBySymbol :: "int \<Rightarrow> string \<Rightarrow> string \<Rightarrow> string + string"
  getBalanceByMetis :: "string option \<Rightarrow> string \<Rightarrow> string \<Rightarrow> string + string"
  web3_getBalance :: "string option \<Rightarrow> string \<Rightarrow> string + string"
  getDydxClient :: "int \<Rightarrow> string \<Rightarrow> string option"
  getBalanceUsdc :: "int \<Rightarrow> string \<Rightarrow> string + string"
  alchemy_getBalance :: "string \<Rightarrow> string \<Rightarrow> string + string"
  alchemy_getTokenBalances :: "string \<Rightarrow> string \<Rightarrow> string list \<Rightarrow> string + tokenBalanceItem list"
  repository_insert :: "MakerWealthRow \<Rightarrow> string option"

text \<open>
  \<^item> \<open>getErc20BalanceByL1\<close>, \<open>imx_getBalanceBySymbol\<close> and \<open>getBalanceUsdc\<close> answer with the
    string the source makes of the result (\<^verbatim>\<open>String(...)\<close>, \<^verbatim>\<open>.toString()\<close>);
  \<^item> \<open>getDydxClient\<close> and \<open>repository_insert\<close> answer \<open>None\<close> when they succeed, the message
    of the error when they throw;
  \<^item> the first argument of \<open>getBalanceByMetis\<close> and \<open>web3_getBalance\<close> is the end point the
    \<^verbatim>\<open>Web3\<close> object was made with;
  \<^item> an error thrown while a client object is made (\<^verbatim>\<open>new Web3\<close>, \<^verbatim>\<open>new IMXHelper\<close>,
    \<^verbatim>\<open>new DydxHelper\<close>, \<^verbatim>\<open>createAlchemyWeb3\<close>) counts as the error of the first call through
    it, and an answer that lacks the object the source reads a field of
    (\<^verbatim>\<open>accountInfo.data\<close>, \<^verbatim>\<open>respData\<close>) as an answer that throws;
  \<^item> \<open>getMakerList\<close> is the maker list, or the message of the error when reading it fails.
\<close>

section \<open>Request shaping with its checks: \<^verbatim>\<open>getWealthsChains\<close>\<close>

text \<open>The function returns what it did to the outside and its result, \<open>Inl\<close> when the
  promise is rejected.\<close>

definition getWealthsChains ::
  "env \<Rightarrow> world \<Rightarrow> string \<Rightarrow> io_event list \<times> (error + WealthsChain list)" where
  "getWealthsChains e w mAddress =
     (if \<not> truthy mAddress
      then ([], Inl (ServiceError ''Sorry, params makerAddress miss'' arguments_invalid))
      else (case getMakerList w of
              Inl msg \<Rightarrow> ([Call GetMakerList], Inl (Rejected msg))
            | Inr makerList \<Rightarrow> ([Call GetMakerList], Inr (shapeChains e makerList mAddress))))"

section \<open>One balance: \<^verbatim>\<open>getTokenBalance\<close>\<close>

text \<open>
  The body of the \<^verbatim>\<open>try\<close> block is modelled branch by branch. Each branch returns an
  \<open>attempt\<close>: the requests it made, the variable \<^verbatim>\<open>value\<close> where the block ended, and
  the message of the error where it ended by a throw.
\<close>

type_synonym attempt = "io_event list \<times> string option \<times> string option"

text \<open>\<^verbatim>\<open>String.prototype.toUpperCase\<close> on the letters of ASCII.\<close>

definition toUpperChar :: "char \<Rightarrow> char" where
  "toUpperChar c =
     (if 97 \<le> (of_char c :: nat) \<and> (of_char c :: nat) \<le> 122
      then char_of ((of_char c :: nat) - 32) else c)"

definition toUpperCase :: "string \<Rightarrow> string" where
  "toUpperCase s = map toUpperChar s"

text \<open>The message of the \<^verbatim>\<open>TypeError\<close> JavaScript throws on reading a property of
  \<^verbatim>\<open>undefined\<close> or \<^verbatim>\<open>null\<close>.\<close>

definition typeError :: string where
  "typeError = ''TypeError''"

definition zksyncBalance :: "env \<Rightarrow> world \<Rightarrow> string \<Rightarrow> int \<Rightarrow> string \<Rightarrow> attempt" where
  "zksyncBalance e w mAddress cId tNm =
     (let endPoint = (if cId = 33 then zksync_test_endPoint e else zksync_endPoint e) in
      case axios_zksync w endPoint mAddress of
        Inl msg \<Rightarrow> ([Call (ZksyncCommitted endPoint mAddress)], None, Some msg)
      | Inr respData \<Rightarrow>
          ([Call (ZksyncCommitted endPoint mAddress)],
           (if zk_status respData = ''success''
            then (case zk_balances respData of
                    None \<Rightarrow> None
                  | Some bs \<Rightarrow> map_of bs (toUpperCase tNm))
            else None),
           None))"

text \<open>\<^verbatim>\<open>balanceMap.total ? balanceMap.total : 0\<close>, as the text of the number.\<close>

definition orZero :: "string option \<Rightarrow> string" where
  "orZero x = (case x of None \<Rightarrow> ''0'' | Some s \<Rightarrow> (if truthy s then s else ''0''))"

text \<open>
  What the loopring branch does with an answer of status 200 and text OK: the two
  \<^verbatim>\<open>if\<close>s that set \<^verbatim>\<open>value = '0'\<close> do not leave the block, so \<^verbatim>\<open>balanceData.data[0]\<close>
  is read next, and reading \<^verbatim>\<open>.total\<close> of a missing element throws with \<^verbatim>\<open>value\<close>
  already set.
\<close>

definition loopringValue :: "env \<Rightarrow> loopringData \<Rightarrow> string option \<times> string option" where
  "loopringValue e d =
     (case d of
        LrNotArray \<Rightarrow> (Some ''0'', Some typeError)
      | LrArray [] \<Rightarrow> (Some ''0'', Some typeError)
      | LrArray (None # _) \<Rightarrow> (None, Some typeError)
      | LrArray (Some balanceMap # _) \<Rightarrow>
          (Some (js_minus3 e (orZero (total balanceMap)) (orZero (locked balanceMap))
                   (orZero (withDraw balanceMap))),
           None))"

definition loopringBalance :: "env \<Rightarrow> world \<Rightarrow> string \<Rightarrow> int \<Rightarrow> attempt" where
  "loopringBalance e w mAddress cId =
     (let endPoint = (if cId = 99 then loopring_test_endPoint e else loopring_endPoint e) in
      case axios_loopring_account w endPoint mAddress of
        Inl msg \<Rightarrow> ([Call (LoopringAccount endPoint mAddress)], None, Some msg)
      | Inr accountInfo \<Rightarrow>
          (let accountID =
                 (if la_status accountInfo = 200 \<and> la_statusText accountInfo = ''OK''
                  then la_accountId accountInfo else None);
               calls = [Call (LoopringAccount endPoint mAddress),
                        Call (LoopringBalances endPoint accountID)] in
           case axios_loopring_balances w endPoint accountID of
             Inl msg \<Rightarrow> (calls, None, Some msg)
           | Inr balanceData \<Rightarrow>
               (if lb_status balanceData = 200 \<and> lb_statusText balanceData = ''OK''
                then (case loopringValue e (lb_data balanceData) of (v, t) \<Rightarrow> (calls, v, t))
                else (calls, None, None))))"

definition starknetBalance :: "env \<Rightarrow> world \<Rightarrow> string \<Rightarrow> int \<Rightarrow> string \<Rightarrow> attempt" where
  "starknetBalance e w mAddress cId tAddress =
     (case getNetworkIdByChainId e cId of
        Inl msg \<Rightarrow> ([], None, Some msg)
      | Inr networkId \<Rightarrow>
          (case getErc20BalanceByL1 w mAddress tAddress networkId of
             Inl msg \<Rightarrow> ([Call (StarknetErc20Balance mAddress tAddress networkId)], None, Some msg)
           | Inr s \<Rightarrow> ([Call (StarknetErc20Balance mAddress tAddress networkId)], Some s, None)))"

definition immutablexBalance :: "world \<Rightarrow> string \<Rightarrow> int \<Rightarrow> string \<Rightarrow> attempt" where
  "immutablexBalance w mAddress cId tNm =
     (case imx_getBalanceBySymbol w cId mAddress tNm of
        Inl msg \<Rightarrow> ([Call (ImxBalanceBySymbol cId mAddress tNm)], None, Some msg)
      | Inr s \<Rightarrow> ([Call (ImxBalanceBySymbol cId mAddress tNm)], Some s, None))"

definition metisBalance :: "env \<Rightarrow> world \<Rightarrow> string \<Rightarrow> string \<Rightarrow> string \<Rightarrow> attempt" where
  "metisBalance e w mAddress cName tAddress =
     (let endPoint = httpEndPoint e cName in
      if truthy tAddress
      then (case getBalanceByMetis w endPoint mAddress tAddress of
              Inl msg \<Rightarrow> ([Call (MetisBalanceOf endPoint mAddress tAddress)], None, Some msg)
            | Inr s \<Rightarrow> ([Call (MetisBalanceOf endPoint mAddress tAddress)], Some s, None))
      else (case web3_getBalance w endPoint mAddress of
              Inl msg \<Rightarrow> ([Call (Web3GetBalance endPoint mAddress)], None, Some msg)
            | Inr s \<Rightarrow> ([Call (Web3GetBalance endPoint mAddress)], Some s, None)))"

definition dydxBalance :: "env \<Rightarrow> world \<Rightarrow> string \<Rightarrow> int \<Rightarrow> attempt" where
  "dydxBalance e w mAddress cId =
     (case getApiKeyCredentials e mAddress of
        None \<Rightarrow> ([], None, None)
      | Some apiKeyCredentials \<Rightarrow>
          (case getDydxClient w cId mAddress of
             Some msg \<Rightarrow> ([Call (DydxGetClient cId mAddress)], None, Some msg)
           | None \<Rightarrow>
               (case getBalanceUsdc w cId mAddress of
                  Inl msg \<Rightarrow>
                    ([Call (DydxGetClient cId mAddress), Call (DydxGetBalanceUsdc cId mAddress)],
                     None, Some msg)
                | Inr s \<Rightarrow>
                    ([Call (DydxGetClient cId mAddress), Call (DydxGetBalanceUsdc cId mAddress)],
                     Some s, None))))"

text \<open>The loop over \<^verbatim>\<open>resp.tokenBalances\<close>: the first item without an error gives the
  value, \<^verbatim>\<open>String(item.tokenBalance)\<close>, which is \<^verbatim>\<open>'null'\<close> for \<^verbatim>\<open>null\<close>.\<close>

fun firstTokenBalance :: "tokenBalanceItem list \<Rightarrow> string option" where
  "firstTokenBalance [] = None"
| "firstTokenBalance (item # items) =
     (case tb_error item of
        Some err \<Rightarrow>
          (if truthy err then firstTokenBalance items
           else Some (case tb_tokenBalance item of None \<Rightarrow> ''null'' | Some b \<Rightarrow> b))
      | None \<Rightarrow> Some (case tb_tokenBalance item of None \<Rightarrow> ''null'' | Some b \<Rightarrow> b))"

text \<open>The \<^verbatim>\<open>default\<close> branch. \<^verbatim>\<open>!alchemyUrl\<close> holds for a missing end point and for an
  empty one.\<close>

definition defaultBalance :: "env \<Rightarrow> world \<Rightarrow> string \<Rightarrow> string \<Rightarrow> string \<Rightarrow> attempt" where
  "defaultBalance e w mAddress cName tAddress =
     (case httpEndPoint e cName of
        None \<Rightarrow> ([], None, None)
      | Some alchemyUrl \<Rightarrow>
          (if \<not> truthy alchemyUrl then ([], None, None)
           else if (if truthy tAddress then isEthTokenAddress e tAddress else True)
           then (case alchemy_getBalance w alchemyUrl mAddress of
                   Inl msg \<Rightarrow> ([Call (AlchemyGetBalance alchemyUrl mAddress)], None, Some msg)
                 | Inr s \<Rightarrow> ([Call (AlchemyGetBalance alchemyUrl mAddress)], Some s, None))
           else (case alchemy_getTokenBalances w alchemyUrl mAddress [tAddress] of
                   Inl msg \<Rightarrow>
                     ([Call (AlchemyGetTokenBalances alchemyUrl mAddress [tAddress])],
                      None, Some msg)
                 | Inr tokenBalances \<Rightarrow>
                     ([Call (AlchemyGetTokenBalances alchemyUrl mAddress [tAddress])],
                      firstTokenBalance tokenBalances, None))))"

text \<open>The \<^verbatim>\<open>switch\<close> on \<^verbatim>\<open>CHAIN_INDEX[chainId]\<close>.\<close>

definition tryBalance ::
  "env \<Rightarrow> world \<Rightarrow> string \<Rightarrow> int \<Rightarrow> string \<Rightarrow> string \<Rightarrow> string \<Rightarrow> attempt" where
  "tryBalance e w mAddress cId cName tAddress tNm =
     (let family = CHAIN_INDEX e cId in
      if family = Some ''zksync'' then zksyncBalance e w mAddress cId tNm
      else if family = Some ''loopring'' then loopringBalance e w mAddress cId
      else if family = Some ''starknet'' then starknetBalance e w mAddress cId tAddress
      else if family = Some ''immutablex'' then immutablexBalance w mAddress cId tNm
      else if family = Some ''metis'' then metisBalance e w mAddress cName tAddress
      else if family = Some ''dydx'' then dydxBalance e w mAddress cId
      else defaultBalance e w mAddress cName tAddress)"

text \<open>The \<^verbatim>\<open>catch\<close> logs the error and falls through to \<^verbatim>\<open>return value\<close>.\<close>

definition getTokenBalance ::
  "env \<Rightarrow> world \<Rightarrow> string \<Rightarrow> int \<Rightarrow> string \<Rightarrow> string \<Rightarrow> string \<Rightarrow> io_event list \<times> string option"
  where
  "getTokenBalance e w mAddress cId cName tAddress tNm =
     (case tryBalance e w mAddress cId cName tAddress tNm of
        (evs, v, None) \<Rightarrow> (evs, v)
      | (evs, v, Some msg) \<Rightarrow> (evs @ [ErrorLog cId mAddress tNm msg], v))"

section \<open>All balances: \<^verbatim>\<open>getWealths\<close>\<close>

text \<open>The body of \<^verbatim>\<open>promiseItem\<close>: fetch, divide a truthy value by \<^verbatim>\<open>10 ** decimals\<close>,
  assign \<^verbatim>\<open>item2.value\<close>.\<close>

definition formatValue :: "env \<Rightarrow> string option \<Rightarrow> nat \<Rightarrow> string option" where
  "formatValue e v dec =
     (case v of
        None \<Rightarrow> None
      | Some s \<Rightarrow> (if truthy s then Some (BigNumber_dividedBy_pow10 e s dec) else Some s))"

definition promiseItem ::
  "env \<Rightarrow> world \<Rightarrow> WealthsChain \<Rightarrow> BalanceSlot \<Rightarrow> io_event list \<times> BalanceSlot" where
  "promiseItem e w item item2 =
     (case getTokenBalance e w (wcMakerAddress item) (chainId item) (chainName item)
             (tokenAddress item2) (tokenName item2) of
        (evs, v) \<Rightarrow> (evs, item2\<lparr>slot_value := formatValue e v (decimals item2)\<rparr>))"

text \<open>
  Every promise writes the one slot it was made for, and \<^verbatim>\<open>Promise.all\<close> waits for all
  of them, so the chains after the join are the chains before it with every slot replaced
  by what its promise made of it. The events are listed promise by promise, in the order
  the promises were started; the runtime may interleave them.
\<close>

definition fetchChain :: "env \<Rightarrow> world \<Rightarrow> WealthsChain \<Rightarrow> io_event list \<times> WealthsChain" where
  "fetchChain e w item =
     (let rs = map (promiseItem e w item) (balances item) in
      (concat (map fst rs), item\<lparr>balances := map snd rs\<rparr>))"

definition getWealths ::
  "env \<Rightarrow> world \<Rightarrow> string \<Rightarrow> io_event list \<times> (error + WealthsChain list)" where
  "getWealths e w mAddress =
     (case getWealthsChains e w mAddress of
        (evs, Inl err) \<Rightarrow> (evs, Inl err)
      | (evs, Inr wealthsChains) \<Rightarrow>
          (let rs = map (fetchChain e w) wealthsChains in
           (evs @ concat (map fst rs), Inr (map snd rs))))"

section \<open>Storing: \<^verbatim>\<open>saveWealths\<close>\<close>

text \<open>The two nested loops; an \<^verbatim>\<open>insert\<close> that throws rejects the promise of
  \<^verbatim>\<open>saveWealths\<close> there and then.\<close>

fun saveBalances ::
  "world \<Rightarrow> WealthsChain \<Rightarrow> BalanceSlot list \<Rightarrow> io_event list \<times> (error + unit)" where
  "saveBalances w item1 [] = ([], Inr ())"
| "saveBalances w item1 (item2 # rest) =
     (let r = \<lparr>row_makerAddress = wcMakerAddress item1, row_tokenAddress = tokenAddress item2,
               row_chainId = chainId item1, row_balance = slot_value item2,
               row_decimals = decimals item2\<rparr> in
      case repository_insert w r of
        Some msg \<Rightarrow> ([Call (RepositoryInsert r)], Inl (Rejected msg))
      | None \<Rightarrow>
          (case saveBalances w item1 rest of
             (evs, res) \<Rightarrow> (Call (RepositoryInsert r) # evs, res)))"

fun saveWealths :: "world \<Rightarrow> WealthsChain list \<Rightarrow> io_event list \<times> (error + unit)" where
  "saveWealths w [] = ([], Inr ())"
| "saveWealths w (item1 # rest) =
     (case saveBalances w item1 (balances item1) of
        (evs, Inl err) \<Rightarrow> (evs, Inl err)
      | (evs, Inr _) \<Rightarrow>
          (case saveWealths w rest of (evs2, res) \<Rightarrow> (evs @ evs2, res)))"

section \<open>Reading the trace and the rows\<close>

text \<open>The requests among the events, in order.\<close>

fun requests :: "io_event list \<Rightarrow> request list" where
  "requests [] = []"
| "requests (Call r # evs) = r # requests evs"
| "requests (ErrorLog _ _ _ _ # evs) = requests evs"

text \<open>The families \<^verbatim>\<open>getTokenBalance\<close> has a \<^verbatim>\<open>case\<close> for; every other value of
  \<^verbatim>\<open>CHAIN_INDEX[chainId]\<close>, \<^verbatim>\<open>undefined\<close> too, takes the \<^verbatim>\<open>default\<close> branch.\<close>

definition namedFamilies :: "string list" where
  "namedFamilies = [''zksync'', ''loopring'', ''starknet'', ''immutablex'', ''metis'', ''dydx'']"

text \<open>The number of slots of a chain whose token address is empty, and the property the
  first loop keeps: within a chain no two slots have the same token address.\<close>

fun countNative :: "BalanceSlot list \<Rightarrow> nat" where
  "countNative [] = 0"
| "countNative (b # bs) = (if tokenAddress b = [] then Suc (countNative bs) else countNative bs)"

definition nativeCount :: "WealthsChain \<Rightarrow> nat" where
  "nativeCount item = countNative (balances item)"

definition tokensDistinct :: "WealthsChain list \<Rightarrow> bool" where
  "tokensDistinct ws = list_all (\<lambda>item. distinct (map tokenAddress (balances item))) ws"

text \<open>Every slot of every chain has the empty string as its value.\<close>

definition slotsEmpty :: "WealthsChain list \<Rightarrow> bool" where
  "slotsEmpty ws = list_all (\<lambda>item. list_all (\<lambda>b. slot_value b = Some []) (balances item)) ws"

text \<open>The rows of \<^verbatim>\<open>saveWealths\<close>, chain by chain and slot by slot, and what inserting
  a list of rows one after the other does when an insert that throws ends the run:
  the rows before the first failure are inserted, the failing insert is the last request.\<close>

definition wealthRows :: "WealthsChain list \<Rightarrow> MakerWealthRow list" where
  "wealthRows wealths =
     concat (map (\<lambda>item1. map (\<lambda>item2.
        \<lparr>row_makerAddress = wcMakerAddress item1, row_tokenAddress = tokenAddress item2,
         row_chainId = chainId item1, row_balance = slot_value item2,
         row_decimals = decimals item2\<rparr>) (balances item1)) wealths)"

definition inserted :: "world \<Rightarrow> MakerWealthRow \<Rightarrow> bool" where
  "inserted w r = (repository_insert w r = None)"

definition insertsUntilFailure :: "world \<Rightarrow> MakerWealthRow list \<Rightarrow> io_event list \<times> (error + unit)"
  where
  "insertsUntilFailure w rows =
     (map (\<lambda>r. Call (RepositoryInsert r))
        (takeWhile (inserted w) rows @ take 1 (dropWhile (inserted w) rows)),
      (case dropWhile (inserted w) rows of
         [] \<Rightarrow> Inr ()
       | r # _ \<Rightarrow> (case repository_insert w r of Some msg \<Rightarrow> Inl (Rejected msg) | None \<Rightarrow> Inr ())))"

section \<open>The division by a power of ten\<close>

text \<open>
  The library bignumber.js, whose \<^verbatim>\<open>new BigNumber(value).dividedBy(10 ** decimals).toString()\<close>
  the service stores, is not part of the repository; in the service it is the parameter
  \<open>BigNumber_dividedBy_pow10\<close>. This section writes the division down as the
  specification describes it, for raw values written in decimal digits.
\<close>

definition isDigit :: "char \<Rightarrow> bool" where
  "isDigit c = (c \<in> set ''0123456789'')"

text \<open>The position of the first occurrence.\<close>

fun indexOf :: "'a \<Rightarrow> 'a list \<Rightarrow> nat" where
  "indexOf c [] = 0"
| "indexOf c (x # xs) = (if c = x then 0 else Suc (indexOf c xs))"

definition digitValue :: "char \<Rightarrow> nat" where
  "digitValue c = indexOf c ''0123456789''"

definition digitChar :: "nat \<Rightarrow> char" where
  "digitChar n = ''0123456789'' ! n"

definition isDigits :: "string \<Rightarrow> bool" where
  "isDigits s = (s \<noteq> [] \<and> list_all isDigit s)"

definition digitsToNat :: "string \<Rightarrow> nat" where
  "digitsToNat s = foldl (\<lambda>n c. 10 * n + digitValue c) 0 s"

text \<open>The decimal digits of a number, without leading zeros.\<close>

function natToDigits :: "nat \<Rightarrow> string" where
  "natToDigits n = (if n < 10 then [digitChar n] else natToDigits (n div 10) @ [digitChar (n mod 10)])"
  by pat_completeness auto
termination
  by (relation "measure id") auto

declare natToDigits.simps [simp del]

text \<open>The last \<open>d\<close> decimal digits of \<open>f\<close>, with leading zeros.\<close>

fun fracDigits :: "nat \<Rightarrow> nat \<Rightarrow> string" where
  "fracDigits 0 f = []"
| "fracDigits (Suc d) f = fracDigits d (f div 10) @ [digitChar (f mod 10)]"

definition stripZeros :: "string \<Rightarrow> string" where
  "stripZeros s = rev (dropWhile (\<lambda>c. c = CHR ''0'') (rev s))"

text \<open>\<open>decimalString n d\<close> writes \<open>n / 10 ^ d\<close>.\<close>

definition decimalString :: "nat \<Rightarrow> nat \<Rightarrow> string" where
  "decimalString n d =
     (let frac = stripZeros (fracDigits d (n mod 10 ^ d)) in
      if frac = [] then natToDigits (n div 10 ^ d)
      else natToDigits (n div 10 ^ d) @ ''.'' @ frac)"

text \<open>
  Modelled from the spec: \<^verbatim>\<open>new BigNumber(value).dividedBy(10 ** decimals).toString()\<close> of
  bignumber.js, which is missing from the sources. The specification has the step ``divide
  it by 10^precision using arbitrary-precision decimal arithmetic'' and ``store the
  resulting decimal string'': for a raw value in decimal digits the exact quotient, in
  positional notation, without trailing zeros, and without the point when it is a whole
  number. On any other string the model answers \<^verbatim>\<open>NaN\<close>; no statement below depends on
  it.
\<close>

definition dividedBy_pow10 :: "string \<Rightarrow> nat \<Rightarrow> string" where
  "dividedBy_pow10 v d = (if isDigits v then decimalString (digitsToNat v) d else ''NaN'')"


section \<open>Concrete inputs\<close>

text \<open>
  An environment and a world to run the service on. In the table of chain families, 33
  and 99 are the chain ids \<^verbatim>\<open>getTokenBalance\<close> itself tests for in its zksync and
  loopring branches; the other rows are examples, and chain 137 is not in the table.
  The division is the one modelled above.
\<close>

definition zeroAddress :: string where
  "zeroAddress = ''0x0000000000000000000000000000000000000000''"

text \<open>
  Modelled from the spec: \<^verbatim>\<open>isEthTokenAddress\<close> of \<^verbatim>\<open>../util\<close>, which is missing from the
  sources. The specification calls what it recognises ``the zero/sentinel address'', and
  the comment in \<^verbatim>\<open>getTokenBalance\<close> writes it \<^verbatim>\<open>0x00...000\<close>: \<^verbatim>\<open>0x\<close> followed by
  zeros.
\<close>

fun isZeroAddress :: "string \<Rightarrow> bool" where
  "isZeroAddress (a # b # c # rest) =
     (a = CHR ''0'' \<and> b = CHR ''x'' \<and> list_all (\<lambda>x. x = CHR ''0'') (c # rest))"
| "isZeroAddress _ = False"

definition exampleEnv :: env where
  "exampleEnv =
     \<lparr>CHAIN_INDEX = map_of [(1, ''eth''), (2, ''arbitrum''), (3, ''zksync''), (33, ''zksync''),
        (4, ''starknet''), (6, ''polygon''), (8, ''immutablex''), (9, ''loopring''),
        (99, ''loopring''), (10, ''metis''), (11, ''dydx'')],
      isEthTokenAddress = isZeroAddress,
      zksync_endPoint = ''https://zksync'',
      zksync_test_endPoint = ''https://zksync-test'',
      loopring_endPoint = ''https://loopring'',
      loopring_test_endPoint = ''https://loopring-test'',
      httpEndPoint = map_of [(''mainnet'', ''https://eth''), (''polygon'', ''https://polygon'')],
      getNetworkIdByChainId = (\<lambda>c. Inr (if c = 4 then 1 else 5)),
      getApiKeyCredentials = (\<lambda>_. None),
      js_minus3 = (\<lambda>a b c. a),
      BigNumber_dividedBy_pow10 = dividedBy_pow10\<rparr>"

text \<open>A world with the given maker list in which every balance service is down and the
  database accepts every row.\<close>

definition offlineWorld :: "MakerPairEntry list \<Rightarrow> world" where
  "offlineWorld makerList =
     \<lparr>getMakerList = Inr makerList,
      axios_zksync = (\<lambda>_ _. Inl ''offline''),
      axios_loopring_account = (\<lambda>_ _. Inl ''offline''),
      axios_loopring_balances = (\<lambda>_ _. Inl ''offline''),
      getErc20BalanceByL1 = (\<lambda>_ _ _. Inl ''offline''),
      imx_getBalanceBySymbol = (\<lambda>_ _ _. Inl ''offline''),
      getBalanceByMetis = (\<lambda>_ _ _. Inl ''offline''),
      web3_getBalance = (\<lambda>_ _. Inl ''offline''),
      getDydxClient = (\<lambda>_ _. Some ''offline''),
      getBalanceUsdc = (\<lambda>_ _. Inl ''offline''),
      alchemy_getBalance = (\<lambda>_ _. Inl ''offline''),
      alchemy_getTokenBalances = (\<lambda>_ _ _. Inl ''offline''),
      repository_insert = (\<lambda>_. None)\<rparr>"

text \<open>The row of the end-to-end scenario: maker \<^verbatim>\<open>0xABC\<close>, chain 1 with the empty token
  address, chain 137 with the token \<^verbatim>\<open>0xTOKEN\<close>. A row has one token name and one
  precision for both of its chains.\<close>

definition scenarioEntry :: MakerPairEntry where
  "scenarioEntry =
     \<lparr>makerAddress = ''0xABC'', c1ID = 1, c2ID = 137, c1Name = ''mainnet'', c2Name = ''polygon'',
      t1Address = [], t2Address = ''0xTOKEN'', tName = ''ETH'', precision = 18\<rparr>"

text \<open>Slots and chains to run the second loop on.\<close>

definition tokenSlot :: BalanceSlot where
  "tokenSlot = \<lparr>tokenAddress = ''0xTOKEN'', tokenName = ''USDC'', slot_value = Some [], decimals = 6\<rparr>"

definition zeroSlot :: BalanceSlot where
  "zeroSlot = \<lparr>tokenAddress = zeroAddress, tokenName = ''ETH'', slot_value = Some [], decimals = 18\<rparr>"

definition chainOf :: "int \<Rightarrow> string \<Rightarrow> BalanceSlot list \<Rightarrow> WealthsChain" where
  "chainOf cId cName bs = \<lparr>chainId = cId, chainName = cName, wcMakerAddress = ''0xABC'', balances = bs\<rparr>"

text \<open>Two rows of one maker on chains 1 and 6: chain 1 first with the token \<^verbatim>\<open>0xTOKEN\<close>, then
  with the zero address; chain 6 with the token only.\<close>

definition tokenRow :: MakerPairEntry where
  "tokenRow =
     \<lparr>makerAddress = ''0xABC'', c1ID = 1, c2ID = 6, c1Name = ''mainnet'', c2Name = ''polygon'',
      t1Address = ''0xTOKEN'', t2Address = ''0xTOKEN'', tName = ''USDC'', precision = 6\<rparr>"

definition zeroRow :: MakerPairEntry where
  "zeroRow =
     \<lparr>makerAddress = ''0xABC'', c1ID = 1, c2ID = 6, c1Name = ''mainnet'', c2Name = ''polygon'',
      t1Address = zeroAddress, t2Address = ''0xTOKEN'', tName = ''ETH'', precision = 18\<rparr>"

text \<open>Two rows of one maker that name chain 1 with two spellings of the native
  asset: the zero address and the empty string.\<close>

definition zeroEntry :: MakerPairEntry where
  "zeroEntry =
     \<lparr>makerAddress = ''0xABC'', c1ID = 1, c2ID = 2, c1Name = ''mainnet'', c2Name = ''arbitrum'',
      t1Address = zeroAddress, t2Address = zeroAddress, tName = ''ETH'', precision = 18\<rparr>"

definition emptyEntry :: MakerPairEntry where
  "emptyEntry =
     \<lparr>makerAddress = ''0xABC'', c1ID = 1, c2ID = 33, c1Name = ''mainnet'', c2Name = ''zksync'',
      t1Address = [], t2Address = [], tName = ''ETH'', precision = 18\<rparr>"

definition nativeSlot :: "string \<Rightarrow> BalanceSlot" where
  "nativeSlot tNm = \<lparr>tokenAddress = [], tokenName = tNm, slot_value = Some [], decimals = 18\<rparr>"

text \<open>Two chains of two slots each, and a database that refuses every row.\<close>

definition twoByTwo :: "WealthsChain list" where
  "twoByTwo =
     [chainOf 1 ''mainnet'' [nativeSlot ''ETH'', tokenSlot],
      chainOf 6 ''polygon'' [nativeSlot ''MATIC'', tokenSlot]]"

definition failingDb :: world where
  "failingDb = (offlineWorld [])\<lparr>repository_insert := (\<lambda>_. Some ''db down'')\<rparr>"

text \<open>A maker on loopring whose balance request is answered with status 200 and a body
  that is no array; a maker on zksync whose account has the empty string as ETH balance;
  a maker whose native balance is 1.5 ETH in wei.\<close>

definition loopringEntry :: MakerPairEntry where
  "loopringEntry =
     \<lparr>makerAddress = ''0xABC'', c1ID = 99, c2ID = 1, c1Name = ''loopring'', c2Name = ''mainnet'',
      t1Address = zeroAddress, t2Address = zeroAddress, tName = ''ETH'', precision = 18\<rparr>"

definition loopringWorld :: world where
  "loopringWorld =
     (offlineWorld [loopringEntry])
       \<lparr>axios_loopring_account :=
          (\<lambda>_ _. Inr \<lparr>la_status = 200, la_statusText = ''OK'', la_accountId = Some 7\<rparr>),
        axios_loopring_balances :=
          (\<lambda>_ _. Inr \<lparr>lb_status = 200, lb_statusText = ''OK'', lb_data = LrNotArray\<rparr>)\<rparr>"

definition zksyncWorld :: world where
  "zksyncWorld =
     (offlineWorld [emptyEntry])
       \<lparr>axios_zksync :=
          (\<lambda>_ _. Inr \<lparr>zk_status = ''success'', zk_balances = Some [(''ETH'', [])]\<rparr>)\<rparr>"

definition richWorld :: world where
  "richWorld =
     (offlineWorld [scenarioEntry])
       \<lparr>alchemy_getBalance := (\<lambda>_ _. Inr ''1500000000000000000'')\<rparr>"

text \<open>The slot of \<^verbatim>\<open>0xTOKEN\<close> in the scenario.\<close>

definition tokenSlot18 :: BalanceSlot where
  "tokenSlot18 =
     \<lparr>tokenAddress = ''0xTOKEN'', tokenName = ''ETH'', slot_value = Some [], decimals = 18\<rparr>"

section \<open>Lemmas on the shaping\<close>

lemmas shape_defs = getWealthsChains_def shapeChains_def scanMakerList_def scanEntry_def
  pushLeg_def pushToChains_def pushToChainBalances_def addEth_def ethSlot_def isEthSlot_def
  truthy_def

lemma foldl_scanEntry_other:
  "\<forall>item \<in> set makerList. makerAddress item \<noteq> mAddress \<Longrightarrow>
   foldl (scanEntry mAddress) acc makerList = acc"
  by (induction makerList arbitrary: acc) (simp_all add: scanEntry_def)

lemma clearEth_first:
  "i < length bs \<Longrightarrow> isEthSlot e (bs ! i) \<Longrightarrow> (\<forall>j<i. \<not> isEthSlot e (bs ! j)) \<Longrightarrow>
   clearEth e bs = Some (bs[i := (bs ! i)\<lparr>tokenAddress := []\<rparr>])"
proof (induction bs arbitrary: i)
  case Nil
  then show ?case by simp
next
  case (Cons b bs)
  show ?case
  proof (cases i)
    case 0
    with Cons.prems show ?thesis by simp
  next
    case (Suc k)
    with Cons.prems have nb: "\<not> isEthSlot e b" by auto
    from Suc Cons.prems have "\<forall>j<k. \<not> isEthSlot e (bs ! j)" by auto
    with Suc Cons.prems Cons.IH [of k] nb show ?thesis by simp
  qed
qed

lemma clearEth_none: "(\<forall>b \<in> set bs. \<not> isEthSlot e b) \<Longrightarrow> clearEth e bs = None"
  by (induction bs) simp_all

lemma isEthSlot_iff:
  "isEthSlot e b \<longleftrightarrow> tokenAddress b = [] \<or> isEthTokenAddress e (tokenAddress b)"
  by (simp add: isEthSlot_def truthy_def)

text \<open>
  How many slots with the empty token address a chain has after the second loop: one,
  except when the first slot that is empty or an ETH address is an ETH address and an
  empty slot exists as well; then two.
\<close>

lemma tokensDistinct_pushLeg:
  "tokensDistinct ws \<Longrightarrow> tokensDistinct (pushLeg ws mAddress cId cName tAddress tNm dec)"
proof -
  assume a: "tokensDistinct ws"
  obtain ws' i where p: "pushToChains ws mAddress cId cName = (ws', i)"
    by (cases "pushToChains ws mAddress cId cName")
  from a p have s: "tokensDistinct ws'"
    by (auto simp: pushToChains_def tokensDistinct_def split: option.splits)
  have "tokensDistinct (ws'[i := pushToChainBalances (ws' ! i) tAddress tNm dec])"
  proof (cases "i < length ws'")
    case True
    with s have "distinct (map tokenAddress (balances (ws' ! i)))"
      by (simp add: tokensDistinct_def list_all_length)
    then have "distinct (map tokenAddress
        (balances (pushToChainBalances (ws' ! i) tAddress tNm dec)))"
      by (auto simp: pushToChainBalances_def find_None_iff split: option.splits)
    with s show ?thesis
      by (auto simp: tokensDistinct_def list_all_iff dest!: set_update_subset_insert [THEN subsetD])
  next
    case False
    with s show ?thesis by (simp add: list_update_beyond)
  qed
  with p show ?thesis by (simp add: pushLeg_def)
qed

lemma tokensDistinct_scan: "tokensDistinct (scanMakerList mAddress makerList)"
proof -
  have "tokensDistinct ws \<Longrightarrow> tokensDistinct (foldl (scanEntry mAddress) ws makerList)" for ws
    by (induction makerList arbitrary: ws) (simp_all add: scanEntry_def tokensDistinct_pushLeg)
  then show ?thesis
    by (simp add: scanMakerList_def tokensDistinct_def)
qed

lemma countNative_zero_iff: "countNative bs = 0 \<longleftrightarrow> [] \<notin> tokenAddress ` set bs"
  by (induction bs) auto

lemma distinct_countNative: "distinct (map tokenAddress bs) \<Longrightarrow> countNative bs \<le> 1"
  by (induction bs) (auto simp: countNative_zero_iff)

lemma clearEth_None_iff: "clearEth e bs = None \<longleftrightarrow> List.find (isEthSlot e) bs = None"
  by (induction bs) auto

lemma not_eth_not_native: "\<not> isEthSlot e b \<Longrightarrow> tokenAddress b \<noteq> []"
  by (simp add: isEthSlot_def truthy_def split: if_splits)

lemma clearEth_count:
  "clearEth e bs = Some bs' \<Longrightarrow> List.find (isEthSlot e) bs = Some b \<Longrightarrow>
   countNative bs' = (if tokenAddress b = [] then countNative bs else Suc (countNative bs))"
proof (induction bs arbitrary: bs')
  case Nil
  then show ?case by simp
next
  case (Cons x bs)
  show ?case
  proof (cases "isEthSlot e x")
    case True
    with Cons.prems show ?thesis by auto
  next
    case False
    with Cons.prems obtain bs'' where c: "clearEth e bs = Some bs''" "bs' = x # bs''"
      by auto
    from False Cons.prems have f: "List.find (isEthSlot e) bs = Some b" by simp
    from Cons.IH [OF c(1) f] c(2) not_eth_not_native [OF False] show ?thesis
      by simp
  qed
qed

lemma find_None_no_native: "List.find (isEthSlot e) bs = None \<Longrightarrow> countNative bs = 0"
proof (induction bs)
  case Nil
  then show ?case by simp
next
  case (Cons x bs)
  then show ?case
    using not_eth_not_native [of e x] by (auto split: if_splits)
qed

lemma find_native_count:
  assumes f: "List.find (isEthSlot e) bs = Some b" and t: "tokenAddress b = []"
    and d: "distinct (map tokenAddress bs)"
  shows "countNative bs = 1"
proof -
  from f have "b \<in> set bs"
    by (auto simp: find_Some_iff)
  with t have "[] \<in> tokenAddress ` set bs"
    by (metis imageI)
  then have "countNative bs \<noteq> 0"
    by (simp add: countNative_zero_iff)
  with distinct_countNative [OF d] show ?thesis by simp
qed

lemma addEth_nativeCount:
  assumes d: "distinct (map tokenAddress (balances item))"
  shows "nativeCount (addEth e item) =
     (case List.find (isEthSlot e) (balances item) of
        None \<Rightarrow> 1
      | Some b \<Rightarrow> if tokenAddress b \<noteq> [] \<and> [] \<in> tokenAddress ` set (balances item)
                  then 2 else 1)"
proof (cases "clearEth e (balances item)")
  case None
  then have f: "List.find (isEthSlot e) (balances item) = None"
    by (simp add: clearEth_None_iff)
  with None find_None_no_native [OF f] show ?thesis
    by (simp add: nativeCount_def addEth_def ethSlot_def)
next
  case (Some bs')
  then obtain b where f: "List.find (isEthSlot e) (balances item) = Some b"
    using clearEth_None_iff [of e "balances item"] by auto
  note c = clearEth_count [OF Some f]
  show ?thesis
  proof (cases "tokenAddress b = []")
    case True
    with c find_native_count [OF f True d] Some f show ?thesis
      by (simp add: nativeCount_def addEth_def)
  next
    case False
    show ?thesis
    proof (cases "[] \<in> tokenAddress ` set (balances item)")
      case True
      then have "countNative (balances item) \<noteq> 0"
        by (simp add: countNative_zero_iff)
      with distinct_countNative [OF d] have "countNative (balances item) = 1" by simp
      with c False True Some f show ?thesis
        by (simp add: nativeCount_def addEth_def)
    next
      case n: False
      then have "countNative (balances item) = 0"
        by (simp add: countNative_zero_iff)
      with c False n Some f show ?thesis
        by (simp add: nativeCount_def addEth_def)
    qed
  qed
qed

lemma shaped_nativeCount:
  assumes "item \<in> set (scanMakerList mAddress makerList)"
  shows "addEth e item \<in> set (shapeChains e makerList mAddress)
     \<and> nativeCount (addEth e item) =
       (case List.find (isEthSlot e) (balances item) of
          None \<Rightarrow> 1
        | Some b \<Rightarrow> if tokenAddress b \<noteq> [] \<and> [] \<in> tokenAddress ` set (balances item)
                    then 2 else 1)"
proof -
  from assms tokensDistinct_scan [of mAddress makerList]
  have "distinct (map tokenAddress (balances item))"
    by (simp add: tokensDistinct_def list_all_iff)
  with assms show ?thesis
    by (simp add: addEth_nativeCount shapeChains_def)
qed

lemma shaped_native_one_or_two:
  assumes "item \<in> set (shapeChains e makerList mAddress)"
  shows "nativeCount item = 1 \<or> nativeCount item = 2"
proof -
  from assms obtain item0 where i: "item0 \<in> set (scanMakerList mAddress makerList)"
    "item = addEth e item0"
    by (auto simp: shapeChains_def)
  from shaped_nativeCount [OF i(1), of e] i(2) show ?thesis
    by (auto split: option.splits if_splits)
qed

lemma scan_rows:
  "scanMakerList ''0xABC'' [tokenRow, zeroRow] =
     [chainOf 1 ''mainnet'' [tokenSlot, zeroSlot], chainOf 6 ''polygon'' [tokenSlot]]"
  by (simp add: scanMakerList_def scanEntry_def pushLeg_def pushToChains_def
      pushToChainBalances_def tokenRow_def zeroRow_def chainOf_def tokenSlot_def zeroSlot_def
      zeroAddress_def)

section \<open>The claims\<close>

text \<open>
  C4. \<^verbatim>\<open>getWealthsChains\<close> and \<^verbatim>\<open>getWealths\<close> called with the empty maker address
  are rejected with the service error of code \<^verbatim>\<open>arguments invalid\<close>, and have made no
  request before: neither the maker list was read nor any balance service called. For a
  non-empty maker address that no row of the maker list carries, \<^verbatim>\<open>getWealthsChains\<close>
  returns the empty list.
\<close>

theorem C4_empty_address_rejected_unknown_maker_empty:
  "getWealthsChains e w [] =
     ([], Inl (ServiceError ''Sorry, params makerAddress miss'' arguments_invalid))
   \<and> getWealths e w [] =
     ([], Inl (ServiceError ''Sorry, params makerAddress miss'' arguments_invalid))
   \<and> (mAddress \<noteq> [] \<and> getMakerList w = Inr makerList
        \<and> (\<forall>item \<in> set makerList. makerAddress item \<noteq> mAddress)
      \<longrightarrow> getWealthsChains e w mAddress = ([Call GetMakerList], Inr []))"
  by (simp add: getWealthsChains_def getWealths_def truthy_def shapeChains_def scanMakerList_def
      foldl_scanEntry_other)

theorem C4_witness:
  "getWealthsChains exampleEnv (offlineWorld [scenarioEntry]) ''0xDEF''
     = ([Call GetMakerList], Inr [])"
proof -
  have "''0xDEF'' \<noteq> [] \<and> getMakerList (offlineWorld [scenarioEntry]) = Inr [scenarioEntry]
        \<and> (\<forall>item \<in> set [scenarioEntry]. makerAddress item \<noteq> ''0xDEF'')"
    by (simp add: offlineWorld_def scenarioEntry_def)
  with C4_empty_address_rejected_unknown_maker_empty
         [of exampleEnv "offlineWorld [scenarioEntry]" "''0xDEF''" "[scenarioEntry]"]
  show ?thesis by blast
qed

text \<open>
  C3. \<^verbatim>\<open>getWealthsChains\<close> returns the chains the first loop built, each one passed
  through the second loop. The second loop, on one chain: if some slot has an empty token
  address or an ETH token address, the first such slot gets the empty token address and
  nothing else changes; if there is none, a slot with the empty token address, 18 decimals,
  the empty value and the name MATIC (when \<^verbatim>\<open>CHAIN_INDEX\<close> gives polygon for the chain)
  or ETH (otherwise) is put in front of the slots.
\<close>

theorem C3_post_pass:
  "(i < length (balances item)
      \<and> (tokenAddress (balances item ! i) = []
           \<or> isEthTokenAddress e (tokenAddress (balances item ! i)))
      \<and> (\<forall>j<i. tokenAddress (balances item ! j) \<noteq> []
                 \<and> \<not> isEthTokenAddress e (tokenAddress (balances item ! j)))
    \<longrightarrow> addEth e item =
          item\<lparr>balances := (balances item)[i := (balances item ! i)\<lparr>tokenAddress := []\<rparr>]\<rparr>)
   \<and> ((\<forall>b \<in> set (balances item).
          tokenAddress b \<noteq> [] \<and> \<not> isEthTokenAddress e (tokenAddress b))
    \<longrightarrow> addEth e item =
          item\<lparr>balances :=
            \<lparr>tokenAddress = [],
             tokenName = (if CHAIN_INDEX e (chainId item) = Some ''polygon''
                          then ''MATIC'' else ''ETH''),
             slot_value = Some [], decimals = 18\<rparr> # balances item\<rparr>)
   \<and> (mAddress \<noteq> [] \<and> getMakerList w = Inr makerList
    \<longrightarrow> getWealthsChains e w mAddress =
          ([Call GetMakerList], Inr (map (addEth e) (scanMakerList mAddress makerList))))"
proof (intro conjI impI)
  assume a: "i < length (balances item)
      \<and> (tokenAddress (balances item ! i) = []
           \<or> isEthTokenAddress e (tokenAddress (balances item ! i)))
      \<and> (\<forall>j<i. tokenAddress (balances item ! j) \<noteq> []
                 \<and> \<not> isEthTokenAddress e (tokenAddress (balances item ! j)))"
  then have "clearEth e (balances item)
      = Some ((balances item)[i := (balances item ! i)\<lparr>tokenAddress := []\<rparr>])"
    by (intro clearEth_first) (simp_all add: isEthSlot_iff)
  then show "addEth e item =
      item\<lparr>balances := (balances item)[i := (balances item ! i)\<lparr>tokenAddress := []\<rparr>]\<rparr>"
    by (simp add: addEth_def)
next
  assume "\<forall>b \<in> set (balances item).
      tokenAddress b \<noteq> [] \<and> \<not> isEthTokenAddress e (tokenAddress b)"
  then have "clearEth e (balances item) = None"
    by (intro clearEth_none) (simp add: isEthSlot_iff)
  then show "addEth e item =
      item\<lparr>balances :=
        \<lparr>tokenAddress = [],
         tokenName = (if CHAIN_INDEX e (chainId item) = Some ''polygon''
                      then ''MATIC'' else ''ETH''),
         slot_value = Some [], decimals = 18\<rparr> # balances item\<rparr>"
    by (simp add: addEth_def ethSlot_def)
next
  assume "mAddress \<noteq> [] \<and> getMakerList w = Inr makerList"
  then show "getWealthsChains e w mAddress =
      ([Call GetMakerList], Inr (map (addEth e) (scanMakerList mAddress makerList)))"
    by (simp add: getWealthsChains_def shapeChains_def truthy_def)
qed

theorem C3_witness:
  "getWealthsChains exampleEnv (offlineWorld [tokenRow, zeroRow]) ''0xABC'' =
     ([Call GetMakerList],
      Inr [chainOf 1 ''mainnet'' [tokenSlot, zeroSlot\<lparr>tokenAddress := []\<rparr>],
           chainOf 6 ''polygon''
             [\<lparr>tokenAddress = [], tokenName = ''MATIC'', slot_value = Some [], decimals = 18\<rparr>,
              tokenSlot]])"
proof -
  have h1: "1 < length (balances (chainOf 1 ''mainnet'' [tokenSlot, zeroSlot]))
      \<and> (tokenAddress (balances (chainOf 1 ''mainnet'' [tokenSlot, zeroSlot]) ! 1) = []
           \<or> isEthTokenAddress exampleEnv
                (tokenAddress (balances (chainOf 1 ''mainnet'' [tokenSlot, zeroSlot]) ! 1)))
      \<and> (\<forall>j<1. tokenAddress (balances (chainOf 1 ''mainnet'' [tokenSlot, zeroSlot]) ! j) \<noteq> []
            \<and> \<not> isEthTokenAddress exampleEnv
                (tokenAddress (balances (chainOf 1 ''mainnet'' [tokenSlot, zeroSlot]) ! j)))"
    by (simp add: chainOf_def tokenSlot_def zeroSlot_def zeroAddress_def exampleEnv_def)
  have h2: "\<forall>b \<in> set (balances (chainOf 6 ''polygon'' [tokenSlot])).
      tokenAddress b \<noteq> [] \<and> \<not> isEthTokenAddress exampleEnv (tokenAddress b)"
    by (simp add: chainOf_def tokenSlot_def exampleEnv_def)
  have h3: "''0xABC'' \<noteq> []
      \<and> getMakerList (offlineWorld [tokenRow, zeroRow]) = Inr [tokenRow, zeroRow]"
    by (simp add: offlineWorld_def)
  have a1: "addEth exampleEnv (chainOf 1 ''mainnet'' [tokenSlot, zeroSlot])
     = chainOf 1 ''mainnet'' [tokenSlot, zeroSlot\<lparr>tokenAddress := []\<rparr>]"
    using C3_post_pass [where i = 1 and item = "chainOf 1 ''mainnet'' [tokenSlot, zeroSlot]"
        and e = exampleEnv, THEN conjunct1, THEN mp, OF h1]
    by (simp add: chainOf_def)
  have a2: "addEth exampleEnv (chainOf 6 ''polygon'' [tokenSlot])
     = chainOf 6 ''polygon''
         [\<lparr>tokenAddress = [], tokenName = ''MATIC'', slot_value = Some [], decimals = 18\<rparr>,
          tokenSlot]"
    using C3_post_pass [where item = "chainOf 6 ''polygon'' [tokenSlot]" and e = exampleEnv,
        THEN conjunct2, THEN conjunct1, THEN mp, OF h2]
    by (simp add: chainOf_def exampleEnv_def)
  from C3_post_pass [where e = exampleEnv and w = "offlineWorld [tokenRow, zeroRow]"
      and mAddress = "''0xABC''" and makerList = "[tokenRow, zeroRow]",
      THEN conjunct2, THEN conjunct2, THEN mp, OF h3]
  show ?thesis
    by (simp only: scan_rows list.map a1 a2)
qed

text \<open>
  C2 (as the code has it). With a maker list of one row for maker \<^verbatim>\<open>0xABC\<close> that pairs
  chain 1, token address empty, with chain 137, token address \<^verbatim>\<open>0xTOKEN\<close> (no ETH
  address), \<^verbatim>\<open>getWealthsChains("0xABC")\<close> returns two chains, chain 1 first. Chain 1 has
  one slot, with the empty token address. Chain 137 has two slots: in front the slot the
  second loop adds (empty token address, 18 decimals), then the slot of \<^verbatim>\<open>0xTOKEN\<close>.
  Both slots of the row carry the row's one token name and one precision.
\<close>

theorem C2_scenario:
  "getMakerList w = Inr [item] \<and> makerAddress item = ''0xABC''
     \<and> c1ID item = 1 \<and> t1Address item = [] \<and> c2ID item = 137 \<and> t2Address item = ''0xTOKEN''
     \<and> \<not> isEthTokenAddress e ''0xTOKEN''
   \<longrightarrow> getWealthsChains e w ''0xABC'' =
     ([Call GetMakerList],
      Inr [\<lparr>chainId = 1, chainName = c1Name item, wcMakerAddress = ''0xABC'',
            balances = [\<lparr>tokenAddress = [], tokenName = tName item, slot_value = Some [],
                         decimals = precision item\<rparr>]\<rparr>,
           \<lparr>chainId = 137, chainName = c2Name item, wcMakerAddress = ''0xABC'',
            balances = [\<lparr>tokenAddress = [],
                         tokenName = (if CHAIN_INDEX e 137 = Some ''polygon''
                                      then ''MATIC'' else ''ETH''),
                         slot_value = Some [], decimals = 18\<rparr>,
                        \<lparr>tokenAddress = ''0xTOKEN'', tokenName = tName item,
                         slot_value = Some [], decimals = precision item\<rparr>]\<rparr>])"
  by (simp add: shape_defs)

theorem C2_scenario_witness:
  "getWealthsChains exampleEnv (offlineWorld [scenarioEntry]) ''0xABC'' =
     ([Call GetMakerList],
      Inr [chainOf 1 ''mainnet'' [nativeSlot ''ETH''],
           chainOf 137 ''polygon''
             [nativeSlot ''ETH'',
              \<lparr>tokenAddress = ''0xTOKEN'', tokenName = ''ETH'', slot_value = Some [],
               decimals = 18\<rparr>]])"
proof -
  have h: "getMakerList (offlineWorld [scenarioEntry]) = Inr [scenarioEntry]
     \<and> makerAddress scenarioEntry = ''0xABC''
     \<and> c1ID scenarioEntry = 1 \<and> t1Address scenarioEntry = []
     \<and> c2ID scenarioEntry = 137 \<and> t2Address scenarioEntry = ''0xTOKEN''
     \<and> \<not> isEthTokenAddress exampleEnv ''0xTOKEN''"
    by (simp add: offlineWorld_def scenarioEntry_def exampleEnv_def)
  from C2_scenario [of "offlineWorld [scenarioEntry]" scenarioEntry exampleEnv, THEN mp, OF h]
  show ?thesis
    by (simp add: scenarioEntry_def exampleEnv_def chainOf_def nativeSlot_def)
qed

text \<open>The scenario as the specification states it fails: chain 137 has two slots, not
  one.\<close>

theorem C2_counterexample:
  "snd (getWealthsChains exampleEnv (offlineWorld [scenarioEntry]) ''0xABC'') =
     Inr [chainOf 1 ''mainnet'' [nativeSlot ''ETH''],
          chainOf 137 ''polygon''
            [nativeSlot ''ETH'',
             \<lparr>tokenAddress = ''0xTOKEN'', tokenName = ''ETH'', slot_value = Some [],
              decimals = 18\<rparr>]]
   \<and> length (balances (chainOf 137 ''polygon''
            [nativeSlot ''ETH'',
             \<lparr>tokenAddress = ''0xTOKEN'', tokenName = ''ETH'', slot_value = Some [],
              decimals = 18\<rparr>])) = 2"
  by (simp add: shape_defs exampleEnv_def offlineWorld_def scenarioEntry_def chainOf_def nativeSlot_def)

text \<open>
  C1 fails on the code. The first loop keeps the token addresses of a chain distinct, but
  the second loop rewrites the first ETH address to the empty string without looking for a
  slot that is empty already: for a maker with one row that names chain 1 with the zero
  address and one that names it with the empty string, chain 1 ends with two slots whose
  token address is empty.
\<close>

theorem C1_two_native_slots:
  "snd (getWealthsChains exampleEnv (offlineWorld [zeroEntry, emptyEntry]) ''0xABC'') =
     Inr [chainOf 1 ''mainnet'' [nativeSlot ''ETH'', nativeSlot ''ETH''],
          chainOf 2 ''arbitrum'' [nativeSlot ''ETH''],
          chainOf 33 ''zksync'' [nativeSlot ''ETH'']]
   \<and> nativeCount (chainOf 1 ''mainnet'' [nativeSlot ''ETH'', nativeSlot ''ETH'']) = 2"
  by (simp add: shape_defs exampleEnv_def offlineWorld_def zeroEntry_def emptyEntry_def
      chainOf_def nativeSlot_def zeroAddress_def nativeCount_def)

section \<open>Lemmas on the generic family and on storing\<close>

lemma requests_append [simp]: "requests (xs @ ys) = requests xs @ requests ys"
  by (induction xs rule: requests.induct) simp_all

lemma tryBalance_default:
  "CHAIN_INDEX e cId \<notin> Some ` set namedFamilies \<Longrightarrow>
   tryBalance e w mAddress cId cName tAddress tNm = defaultBalance e w mAddress cName tAddress"
  by (auto simp: tryBalance_def namedFamilies_def Let_def)

lemma insertsUntilFailure_Nil: "insertsUntilFailure w [] = ([], Inr ())"
  by (simp add: insertsUntilFailure_def)

lemma insertsUntilFailure_Cons:
  "insertsUntilFailure w (r # rows) =
     (case repository_insert w r of
        Some msg \<Rightarrow> ([Call (RepositoryInsert r)], Inl (Rejected msg))
      | None \<Rightarrow>
          (case insertsUntilFailure w rows of
             (evs, res) \<Rightarrow> (Call (RepositoryInsert r) # evs, res)))"
  by (cases "repository_insert w r") (simp_all add: insertsUntilFailure_def inserted_def)

lemma saveBalances_then:
  "(case saveBalances w item1 bs of
      (evs, Inl err) \<Rightarrow> (evs, Inl err)
    | (evs, Inr u) \<Rightarrow> (case insertsUntilFailure w rest of (evs2, res) \<Rightarrow> (evs @ evs2, res)))
   = insertsUntilFailure w (wealthRows [item1\<lparr>balances := bs\<rparr>] @ rest)"
proof (induction bs)
  case Nil
  then show ?case by (simp add: wealthRows_def split: prod.splits)
next
  case (Cons b bs)
  have rows: "wealthRows [item1\<lparr>balances := b # bs\<rparr>] @ rest =
      \<lparr>row_makerAddress = wcMakerAddress item1, row_tokenAddress = tokenAddress b,
       row_chainId = chainId item1, row_balance = slot_value b, row_decimals = decimals b\<rparr>
      # (wealthRows [item1\<lparr>balances := bs\<rparr>] @ rest)"
    by (simp add: wealthRows_def)
  show ?case
    unfolding rows insertsUntilFailure_Cons Cons.IH [symmetric]
    by (simp add: Let_def split: option.splits prod.splits sum.splits)
qed

lemma saveWealths_rows: "saveWealths w wealths = insertsUntilFailure w (wealthRows wealths)"
proof (induction wealths)
  case Nil
  then show ?case by (simp add: wealthRows_def insertsUntilFailure_Nil)
next
  case (Cons item1 rest)
  have "wealthRows (item1 # rest) = wealthRows [item1\<lparr>balances := balances item1\<rparr>] @ wealthRows rest"
    by (simp add: wealthRows_def)
  with Cons.IH saveBalances_then [where w = w and ?item1.0 = item1 and bs = "balances item1"
      and rest = "wealthRows rest"]
  show ?case by simp
qed


lemma insertsUntilFailure_all:
  "\<forall>r \<in> set rows. repository_insert w r = None \<Longrightarrow>
   insertsUntilFailure w rows = (map (\<lambda>r. Call (RepositoryInsert r)) rows, Inr ())"
  by (induction rows) (simp_all add: insertsUntilFailure_Nil insertsUntilFailure_Cons)

section \<open>The claims on fetching and storing\<close>

text \<open>
  C8. In the generic family (\<^verbatim>\<open>CHAIN_INDEX[chainId]\<close> is none of the six named
  families): with no end point configured for the chain name (missing or empty),
  \<^verbatim>\<open>getTokenBalance\<close> returns no value and has made no request; with an end point, its
  only request is the native balance call when the token address is empty or an ETH
  address, and otherwise the token balance call with the one-element list of the token
  address.
\<close>

theorem C8_generic_family:
  "CHAIN_INDEX e cId \<notin> Some ` set namedFamilies \<longrightarrow>
     ((httpEndPoint e cName = None \<or> httpEndPoint e cName = Some [] \<longrightarrow>
        getTokenBalance e w mAddress cId cName tAddress tNm = ([], None))
    \<and> (httpEndPoint e cName = Some url \<and> url \<noteq> []
          \<and> (tAddress = [] \<or> isEthTokenAddress e tAddress) \<longrightarrow>
        requests (fst (getTokenBalance e w mAddress cId cName tAddress tNm))
          = [AlchemyGetBalance url mAddress])
    \<and> (httpEndPoint e cName = Some url \<and> url \<noteq> []
          \<and> tAddress \<noteq> [] \<and> \<not> isEthTokenAddress e tAddress \<longrightarrow>
        requests (fst (getTokenBalance e w mAddress cId cName tAddress tNm))
          = [AlchemyGetTokenBalances url mAddress [tAddress]]))"
proof (intro impI conjI)
  assume fam: "CHAIN_INDEX e cId \<notin> Some ` set namedFamilies"
  note t = tryBalance_default [OF fam]
  {
    assume "httpEndPoint e cName = None \<or> httpEndPoint e cName = Some []"
    then show "getTokenBalance e w mAddress cId cName tAddress tNm = ([], None)"
      by (auto simp: getTokenBalance_def t defaultBalance_def truthy_def)
  next
    assume "httpEndPoint e cName = Some url \<and> url \<noteq> []
          \<and> (tAddress = [] \<or> isEthTokenAddress e tAddress)"
    then show "requests (fst (getTokenBalance e w mAddress cId cName tAddress tNm))
          = [AlchemyGetBalance url mAddress]"
      by (auto simp: getTokenBalance_def t defaultBalance_def truthy_def split: sum.splits)
  next
    assume "httpEndPoint e cName = Some url \<and> url \<noteq> []
          \<and> tAddress \<noteq> [] \<and> \<not> isEthTokenAddress e tAddress"
    then show "requests (fst (getTokenBalance e w mAddress cId cName tAddress tNm))
          = [AlchemyGetTokenBalances url mAddress [tAddress]]"
      by (auto simp: getTokenBalance_def t defaultBalance_def truthy_def split: sum.splits)
  }
qed


theorem C8_witness:
  "getTokenBalance exampleEnv (offlineWorld []) ''0xABC'' 1 ''unknown'' [] ''ETH'' = ([], None)
   \<and> requests (fst (getTokenBalance exampleEnv (offlineWorld []) ''0xABC'' 1 ''mainnet''
        zeroAddress ''ETH'')) = [AlchemyGetBalance ''https://eth'' ''0xABC'']
   \<and> requests (fst (getTokenBalance exampleEnv (offlineWorld []) ''0xABC'' 1 ''mainnet''
        ''0xTOKEN'' ''USDC'')) = [AlchemyGetTokenBalances ''https://eth'' ''0xABC'' [''0xTOKEN'']]"
proof -
  have fam: "CHAIN_INDEX exampleEnv 1 \<notin> Some ` set namedFamilies"
    by (simp add: exampleEnv_def namedFamilies_def)
  have a: "httpEndPoint exampleEnv ''unknown'' = None
      \<or> httpEndPoint exampleEnv ''unknown'' = Some []"
    by (simp add: exampleEnv_def)
  have b: "httpEndPoint exampleEnv ''mainnet'' = Some ''https://eth'' \<and> ''https://eth'' \<noteq> []
      \<and> (zeroAddress = [] \<or> isEthTokenAddress exampleEnv zeroAddress)"
    by (simp add: exampleEnv_def zeroAddress_def)
  have c: "httpEndPoint exampleEnv ''mainnet'' = Some ''https://eth'' \<and> ''https://eth'' \<noteq> []
      \<and> ''0xTOKEN'' \<noteq> [] \<and> \<not> isEthTokenAddress exampleEnv ''0xTOKEN''"
    by (simp add: exampleEnv_def)
  from C8_generic_family [where e = exampleEnv and cId = 1 and cName = "''unknown''"
      and w = "offlineWorld []" and mAddress = "''0xABC''" and tAddress = "[]"
      and tNm = "''ETH''", THEN mp, OF fam, THEN conjunct1, THEN mp, OF a]
    C8_generic_family [where e = exampleEnv and cId = 1 and cName = "''mainnet''"
      and url = "''https://eth''" and w = "offlineWorld []" and mAddress = "''0xABC''"
      and tAddress = zeroAddress and tNm = "''ETH''", THEN mp, OF fam, THEN conjunct2,
      THEN conjunct1, THEN mp, OF b]
    C8_generic_family [where e = exampleEnv and cId = 1 and cName = "''mainnet''"
      and url = "''https://eth''" and w = "offlineWorld []" and mAddress = "''0xABC''"
      and tAddress = "''0xTOKEN''" and tNm = "''USDC''", THEN mp, OF fam, THEN conjunct2,
      THEN conjunct2, THEN mp, OF c]
  show ?thesis by simp
qed

text \<open>
  C9 (as the code has it). \<^verbatim>\<open>saveWealths\<close> inserts the rows one after the other, chain
  by chain and slot by slot, and stops at the first insert that throws, which rejects
  \<^verbatim>\<open>saveWealths\<close>. When no insert throws it makes exactly one insert per row and
  nothing else: four for two chains of two slots each.
\<close>

theorem C9_inserts_until_failure:
  "saveWealths w wealths = insertsUntilFailure w (wealthRows wealths)
   \<and> ((\<forall>r \<in> set (wealthRows wealths). repository_insert w r = None) \<longrightarrow>
        saveWealths w wealths
          = (map (\<lambda>r. Call (RepositoryInsert r)) (wealthRows wealths), Inr ()))
   \<and> (wealths = [item1, item2] \<and> length (balances item1) = 2 \<and> length (balances item2) = 2
        \<and> (\<forall>r \<in> set (wealthRows wealths). repository_insert w r = None) \<longrightarrow>
        length (fst (saveWealths w wealths)) = 4)"
proof (intro conjI impI)
  show "saveWealths w wealths = insertsUntilFailure w (wealthRows wealths)"
    by (rule saveWealths_rows)
next
  assume "\<forall>r \<in> set (wealthRows wealths). repository_insert w r = None"
  then show "saveWealths w wealths
      = (map (\<lambda>r. Call (RepositoryInsert r)) (wealthRows wealths), Inr ())"
    by (simp only: saveWealths_rows insertsUntilFailure_all)
next
  assume a: "wealths = [item1, item2] \<and> length (balances item1) = 2
      \<and> length (balances item2) = 2
      \<and> (\<forall>r \<in> set (wealthRows wealths). repository_insert w r = None)"
  then have "\<forall>r \<in> set (wealthRows wealths). repository_insert w r = None"
    by blast
  then have "saveWealths w wealths
      = (map (\<lambda>r. Call (RepositoryInsert r)) (wealthRows wealths), Inr ())"
    by (simp only: saveWealths_rows insertsUntilFailure_all)
  moreover from a have "length (wealthRows wealths) = 4"
    by (simp add: wealthRows_def)
  ultimately show "length (fst (saveWealths w wealths)) = 4"
    by simp
qed

text \<open>The claim as stated fails when the database refuses the first row: one insert is
  made, not four.\<close>

theorem C9_counterexample:
  "saveWealths failingDb twoByTwo =
     ([Call (RepositoryInsert
         \<lparr>row_makerAddress = ''0xABC'', row_tokenAddress = [], row_chainId = 1,
          row_balance = Some [], row_decimals = 18\<rparr>)],
      Inl (Rejected ''db down''))
   \<and> length (fst (saveWealths failingDb twoByTwo)) = 1"
  by (simp add: failingDb_def twoByTwo_def offlineWorld_def chainOf_def nativeSlot_def
      tokenSlot_def)

theorem C9_witness:
  "saveWealths (offlineWorld []) twoByTwo =
     (map (\<lambda>r. Call (RepositoryInsert r))
        [\<lparr>row_makerAddress = ''0xABC'', row_tokenAddress = [], row_chainId = 1,
          row_balance = Some [], row_decimals = 18\<rparr>,
         \<lparr>row_makerAddress = ''0xABC'', row_tokenAddress = ''0xTOKEN'', row_chainId = 1,
          row_balance = Some [], row_decimals = 6\<rparr>,
         \<lparr>row_makerAddress = ''0xABC'', row_tokenAddress = [], row_chainId = 6,
          row_balance = Some [], row_decimals = 18\<rparr>,
         \<lparr>row_makerAddress = ''0xABC'', row_tokenAddress = ''0xTOKEN'', row_chainId = 6,
          row_balance = Some [], row_decimals = 6\<rparr>], Inr ())
   \<and> length (fst (saveWealths (offlineWorld []) twoByTwo)) = 4"
proof -
  have h: "\<forall>r \<in> set (wealthRows twoByTwo). repository_insert (offlineWorld []) r = None"
    by (simp add: offlineWorld_def)
  have h2: "twoByTwo = [chainOf 1 ''mainnet'' [nativeSlot ''ETH'', tokenSlot],
        chainOf 6 ''polygon'' [nativeSlot ''MATIC'', tokenSlot]]
      \<and> length (balances (chainOf 1 ''mainnet'' [nativeSlot ''ETH'', tokenSlot])) = 2
      \<and> length (balances (chainOf 6 ''polygon'' [nativeSlot ''MATIC'', tokenSlot])) = 2
      \<and> (\<forall>r \<in> set (wealthRows twoByTwo). repository_insert (offlineWorld []) r = None)"
    by (simp add: offlineWorld_def twoByTwo_def chainOf_def)
  from C9_inserts_until_failure [where w = "offlineWorld []" and wealths = twoByTwo, THEN conjunct2,
      THEN conjunct1, THEN mp, OF h]
    C9_inserts_until_failure [where w = "offlineWorld []" and wealths = twoByTwo, THEN conjunct2,
      THEN conjunct2, THEN mp, OF h2]
  show ?thesis
    by (simp add: wealthRows_def twoByTwo_def chainOf_def nativeSlot_def tokenSlot_def)
qed

section \<open>Lemmas on fetching\<close>

text \<open>Every slot \<^verbatim>\<open>getWealthsChains\<close> builds has the empty string as its value.\<close>

lemma slotsEmpty_pushLeg:
  "slotsEmpty ws \<Longrightarrow> slotsEmpty (pushLeg ws mAddress cId cName tAddress tNm dec)"
proof -
  assume a: "slotsEmpty ws"
  obtain ws' i where p: "pushToChains ws mAddress cId cName = (ws', i)"
    by (cases "pushToChains ws mAddress cId cName")
  from a p have s: "slotsEmpty ws'"
    by (auto simp: pushToChains_def slotsEmpty_def split: option.splits)
  have "list_all (\<lambda>b. slot_value b = Some [])
      (balances (pushToChainBalances (ws' ! i) tAddress tNm dec))"
    if "i < length ws'"
    using s that by (auto simp: pushToChainBalances_def slotsEmpty_def list_all_iff
        split: option.splits)
  with s have "slotsEmpty (ws'[i := pushToChainBalances (ws' ! i) tAddress tNm dec])"
  proof (cases "i < length ws'")
    case True
    assume "i < length ws' \<Longrightarrow> list_all (\<lambda>b. slot_value b = Some [])
      (balances (pushToChainBalances (ws' ! i) tAddress tNm dec))"
    with True s show ?thesis
      by (auto simp: slotsEmpty_def list_all_iff dest!: set_update_subset_insert [THEN subsetD])
  next
    case False
    with s show ?thesis by (simp add: list_update_beyond)
  qed
  with p show ?thesis by (simp add: pushLeg_def)
qed

lemma slotsEmpty_scanEntry: "slotsEmpty ws \<Longrightarrow> slotsEmpty (scanEntry mAddress ws item)"
  by (simp add: scanEntry_def slotsEmpty_pushLeg)

lemma slotsEmpty_foldl:
  "slotsEmpty ws \<Longrightarrow> slotsEmpty (foldl (scanEntry mAddress) ws makerList)"
  by (induction makerList arbitrary: ws) (simp_all add: slotsEmpty_scanEntry)

lemma clearEth_values:
  "clearEth e bs = Some bs' \<Longrightarrow> map slot_value bs' = map slot_value bs"
  by (induction bs arbitrary: bs') (auto split: if_splits)

lemma addEth_values:
  "list_all (\<lambda>b. slot_value b = Some []) (balances item) \<Longrightarrow>
   list_all (\<lambda>b. slot_value b = Some []) (balances (addEth e item))"
proof (cases "clearEth e (balances item)")
  case None
  assume "list_all (\<lambda>b. slot_value b = Some []) (balances item)"
  with None show ?thesis by (simp add: addEth_def ethSlot_def)
next
  case (Some bs')
  assume a: "list_all (\<lambda>b. slot_value b = Some []) (balances item)"
  from clearEth_values [OF Some] have "map slot_value bs' = map slot_value (balances item)" .
  then have "set (map slot_value bs') = set (map slot_value (balances item))" by simp
  with a have "list_all (\<lambda>b. slot_value b = Some []) bs'"
    by (auto simp: list_all_iff)
  with Some show ?thesis by (simp add: addEth_def)
qed

lemma slotsEmpty_shapeChains: "slotsEmpty (shapeChains e makerList mAddress)"
proof -
  have "slotsEmpty (scanMakerList mAddress makerList)"
    unfolding scanMakerList_def by (rule slotsEmpty_foldl) (simp add: slotsEmpty_def)
  then show ?thesis
    by (auto simp: shapeChains_def slotsEmpty_def list_all_iff addEth_values [unfolded list_all_iff])
qed

lemma promiseItem_snd:
  "snd (promiseItem e w item item2) =
     item2\<lparr>slot_value := formatValue e
       (snd (getTokenBalance e w (wcMakerAddress item) (chainId item) (chainName item)
          (tokenAddress item2) (tokenName item2))) (decimals item2)\<rparr>"
  by (simp add: promiseItem_def split: prod.splits)

lemma fetchChain_snd:
  "snd (fetchChain e w item) =
     item\<lparr>balances := map (\<lambda>item2. snd (promiseItem e w item item2)) (balances item)\<rparr>"
  by (simp add: fetchChain_def Let_def comp_def)

lemma getWealths_Inr:
  "mAddress \<noteq> [] \<Longrightarrow> getMakerList w = Inr makerList \<Longrightarrow>
   snd (getWealths e w mAddress) =
     Inr (map (\<lambda>item. snd (fetchChain e w item)) (shapeChains e makerList mAddress))"
  by (simp add: getWealths_def getWealthsChains_def truthy_def Let_def comp_def)

lemma tryBalance_thrown:
  "tryBalance e w mAddress cId cName tAddress tNm = (evs, v, Some msg) \<Longrightarrow>
   v = None \<or> (CHAIN_INDEX e cId = Some ''loopring'' \<and> v = Some ''0'')"
  by (auto simp: tryBalance_def Let_def zksyncBalance_def loopringBalance_def loopringValue_def
      starknetBalance_def immutablexBalance_def metisBalance_def dydxBalance_def
      defaultBalance_def
      split: if_splits sum.splits option.splits loopringData.splits list.splits)

lemma fetched_slot:
  assumes "mAddress \<noteq> []" "getMakerList w = Inr makerList"
    "i < length (shapeChains e makerList mAddress)"
    "item = shapeChains e makerList mAddress ! i"
    "j < length (balances item)" "item2 = balances item ! j"
  shows "\<exists>ws. snd (getWealths e w mAddress) = Inr ws
      \<and> length ws = length (shapeChains e makerList mAddress)
      \<and> ws ! i = item\<lparr>balances := balances (ws ! i)\<rparr>
      \<and> length (balances (ws ! i)) = length (balances item)
      \<and> balances (ws ! i) ! j =
          item2\<lparr>slot_value := formatValue e
            (snd (getTokenBalance e w (wcMakerAddress item) (chainId item) (chainName item)
               (tokenAddress item2) (tokenName item2))) (decimals item2)\<rparr>"
  using assms
  by (simp add: getWealths_Inr fetchChain_snd promiseItem_snd)

lemma shaped_slot_empty:
  assumes "i < length (shapeChains e makerList mAddress)"
    "j < length (balances (shapeChains e makerList mAddress ! i))"
  shows "slot_value (balances (shapeChains e makerList mAddress ! i) ! j) = Some []"
  using slotsEmpty_shapeChains [of e makerList mAddress] assms
  by (simp add: slotsEmpty_def list_all_length)

lemma fetched_slots:
  assumes "mAddress \<noteq> []" "getMakerList w = Inr makerList"
  shows "\<exists>ws. snd (getWealths e w mAddress) = Inr ws
      \<and> length ws = length (shapeChains e makerList mAddress)
      \<and> (\<forall>i j. i < length (shapeChains e makerList mAddress)
             \<and> j < length (balances (shapeChains e makerList mAddress ! i)) \<longrightarrow>
           length (balances (ws ! i)) = length (balances (shapeChains e makerList mAddress ! i))
           \<and> balances (ws ! i) ! j =
               (balances (shapeChains e makerList mAddress ! i) ! j)
                 \<lparr>slot_value := formatValue e
                    (snd (getTokenBalance e w
                       (wcMakerAddress (shapeChains e makerList mAddress ! i))
                       (chainId (shapeChains e makerList mAddress ! i))
                       (chainName (shapeChains e makerList mAddress ! i))
                       (tokenAddress (balances (shapeChains e makerList mAddress ! i) ! j))
                       (tokenName (balances (shapeChains e makerList mAddress ! i) ! j))))
                    (decimals (balances (shapeChains e makerList mAddress ! i) ! j))\<rparr>)"
  using assms
  by (simp add: getWealths_Inr fetchChain_snd promiseItem_snd)

section \<open>Lemmas on the division\<close>

lemma fracDigits_numeral:
  "fracDigits (numeral k) f = fracDigits (pred_numeral k) (f div 10) @ [digitChar (f mod 10)]"
  by (subst numeral_eq_Suc) simp

lemma fracDigits_zero: "fracDigits d 0 = replicate d (CHR ''0'')"
  by (induction d) (simp_all add: digitChar_def replicate_append_same)

lemma stripZeros_replicate: "stripZeros (replicate d (CHR ''0'')) = []"
  by (simp add: stripZeros_def)

lemma natToDigits_zero: "natToDigits 0 = ''0''"
  by (simp add: natToDigits.simps [of 0] digitChar_def)

lemma dividedBy_pow10_zero: "dividedBy_pow10 ''0'' d = ''0''"
proof -
  have "isDigits ''0''"
    by (simp add: isDigits_def isDigit_def)
  moreover have "digitsToNat ''0'' = 0"
    by (simp add: digitsToNat_def digitValue_def)
  ultimately show ?thesis
    by (simp add: dividedBy_pow10_def decimalString_def fracDigits_zero stripZeros_replicate
        natToDigits_zero)
qed

lemma dividedBy_pow10_one_and_a_half: "dividedBy_pow10 ''1500000000000000000'' 18 = ''1.5''"
proof -
  have d: "isDigits ''1500000000000000000''"
    by (simp add: isDigits_def isDigit_def)
  have n: "digitsToNat ''1500000000000000000'' = 1500000000000000000"
    by (simp add: digitsToNat_def digitValue_def)
  have q: "(1500000000000000000::nat) div 10 ^ 18 = Suc 0"
    and r: "(1500000000000000000::nat) mod 10 ^ 18 = 500000000000000000"
    by simp_all
  have f: "fracDigits 18 500000000000000000 = ''500000000000000000''"
    by (simp add: fracDigits_numeral digitChar_def)
  have s: "stripZeros ''500000000000000000'' = ''5''"
    by (simp add: stripZeros_def)
  have i: "natToDigits (Suc 0) = ''1''"
    by (simp add: natToDigits.simps [of "Suc 0"] digitChar_def)
  show ?thesis
    unfolding dividedBy_pow10_def decimalString_def n q r f s i
    using d by simp
qed
















section \<open>The service on the concrete inputs\<close>

lemma exampleEnv_BigNumber: "BigNumber_dividedBy_pow10 exampleEnv = dividedBy_pow10"
  by (simp add: exampleEnv_def)

lemma shape_scenario:
  "shapeChains exampleEnv [scenarioEntry] ''0xABC'' =
     [chainOf 1 ''mainnet'' [nativeSlot ''ETH''],
      chainOf 137 ''polygon''
        [nativeSlot ''ETH'',
         \<lparr>tokenAddress = ''0xTOKEN'', tokenName = ''ETH'', slot_value = Some [],
          decimals = 18\<rparr>]]"
  by (simp add: shape_defs exampleEnv_def scenarioEntry_def chainOf_def nativeSlot_def)

lemma shape_loopring:
  "shapeChains exampleEnv [loopringEntry] ''0xABC'' =
     [chainOf 99 ''loopring'' [nativeSlot ''ETH''], chainOf 1 ''mainnet'' [nativeSlot ''ETH'']]"
  by (simp add: shape_defs exampleEnv_def loopringEntry_def chainOf_def nativeSlot_def
      zeroAddress_def)

lemma shape_empty:
  "shapeChains exampleEnv [emptyEntry] ''0xABC'' =
     [chainOf 1 ''mainnet'' [nativeSlot ''ETH''], chainOf 33 ''zksync'' [nativeSlot ''ETH'']]"
  by (simp add: shape_defs exampleEnv_def emptyEntry_def chainOf_def nativeSlot_def)

lemma balance_rich:
  "getTokenBalance exampleEnv richWorld ''0xABC'' 1 ''mainnet'' [] ''ETH'' =
     ([Call (AlchemyGetBalance ''https://eth'' ''0xABC'')], Some ''1500000000000000000'')"
  by (simp add: getTokenBalance_def tryBalance_def defaultBalance_def truthy_def
      Let_def exampleEnv_def richWorld_def offlineWorld_def)

lemma try_loopring:
  "tryBalance exampleEnv loopringWorld ''0xABC'' 99 ''loopring'' [] ''ETH'' =
     ([Call (LoopringAccount ''https://loopring-test'' ''0xABC''),
       Call (LoopringBalances ''https://loopring-test'' (Some 7))], Some ''0'', Some ''TypeError'')"
  by (simp add: tryBalance_def loopringBalance_def loopringValue_def typeError_def
        Let_def exampleEnv_def loopringWorld_def offlineWorld_def)

lemma balance_zksync:
  "getTokenBalance exampleEnv zksyncWorld ''0xABC'' 33 ''zksync'' [] ''ETH'' =
     ([Call (ZksyncCommitted ''https://zksync-test'' ''0xABC'')], Some [])"
  by (simp add: getTokenBalance_def tryBalance_def zksyncBalance_def toUpperCase_def
      toUpperChar_def Let_def exampleEnv_def zksyncWorld_def offlineWorld_def)

lemma balance_zksync_mainnet:
  "getTokenBalance exampleEnv zksyncWorld ''0xABC'' 1 ''mainnet'' [] ''ETH'' =
     ([Call (AlchemyGetBalance ''https://eth'' ''0xABC''),
       ErrorLog 1 ''0xABC'' ''ETH'' ''offline''], None)"
  by (simp add: getTokenBalance_def tryBalance_def defaultBalance_def truthy_def
      Let_def exampleEnv_def zksyncWorld_def offlineWorld_def)

lemma balances_chainOf: "balances (chainOf cId cName bs) = bs"
  by (simp add: chainOf_def)

lemma balance_rich_polygon:
  "getTokenBalance exampleEnv richWorld ''0xABC'' 137 ''polygon'' [] ''ETH'' =
     ([Call (AlchemyGetBalance ''https://polygon'' ''0xABC'')], Some ''1500000000000000000'')"
  by (simp add: getTokenBalance_def tryBalance_def defaultBalance_def truthy_def
      Let_def exampleEnv_def richWorld_def offlineWorld_def)

lemma try_rich_token:
  "tryBalance exampleEnv richWorld ''0xABC'' 137 ''polygon'' ''0xTOKEN'' ''ETH'' =
     ([Call (AlchemyGetTokenBalances ''https://polygon'' ''0xABC'' [''0xTOKEN''])],
      None, Some ''offline'')"
  by (simp add: tryBalance_def defaultBalance_def truthy_def
      Let_def exampleEnv_def richWorld_def offlineWorld_def)

lemma format_rich:
  "formatValue exampleEnv (Some ''1500000000000000000'') 18 = Some ''1.5''"
  by (simp add: formatValue_def truthy_def exampleEnv_BigNumber dividedBy_pow10_one_and_a_half)

lemma format_zero: "formatValue exampleEnv (Some ''0'') 18 = Some ''0''"
  by (simp add: formatValue_def truthy_def exampleEnv_BigNumber dividedBy_pow10_zero)

section \<open>The claims on the values\<close>

text \<open>
  C10. \<^verbatim>\<open>getWealths\<close> divides only a truthy raw value. For the slot at position \<open>j\<close> of
  the chain at position \<open>i\<close>: the slot was built with the empty string as value; when
  \<^verbatim>\<open>getTokenBalance\<close> returns \<^verbatim>\<open>undefined\<close> for it the stored value is \<^verbatim>\<open>undefined\<close>,
  which replaces the empty string; when it returns the empty string the stored value is the
  empty string, undivided; any other raw value is stored as
  \<^verbatim>\<open>new BigNumber(value).dividedBy(10 ** decimals).toString()\<close>.
\<close>

theorem C10_only_truthy_values_divided:
  "mAddress \<noteq> [] \<and> getMakerList w = Inr makerList
     \<and> i < length (shapeChains e makerList mAddress)
     \<and> item = shapeChains e makerList mAddress ! i
     \<and> j < length (balances item) \<and> item2 = balances item ! j
     \<and> raw = snd (getTokenBalance e w (wcMakerAddress item) (chainId item) (chainName item)
                (tokenAddress item2) (tokenName item2))
   \<longrightarrow> slot_value item2 = Some []
     \<and> (\<exists>ws. snd (getWealths e w mAddress) = Inr ws
          \<and> slot_value (balances (ws ! i) ! j) =
              (case raw of
                 None \<Rightarrow> None
               | Some s \<Rightarrow> if s = [] then Some []
                           else Some (BigNumber_dividedBy_pow10 e s (decimals item2))))"
proof (intro impI conjI)
  assume a: "mAddress \<noteq> [] \<and> getMakerList w = Inr makerList
     \<and> i < length (shapeChains e makerList mAddress)
     \<and> item = shapeChains e makerList mAddress ! i
     \<and> j < length (balances item) \<and> item2 = balances item ! j
     \<and> raw = snd (getTokenBalance e w (wcMakerAddress item) (chainId item) (chainName item)
                (tokenAddress item2) (tokenName item2))"
  then show "slot_value item2 = Some []"
    using shaped_slot_empty [of i e makerList mAddress j] by blast
  from a fetched_slot [of mAddress w makerList i e item j item2]
  obtain ws where ws: "snd (getWealths e w mAddress) = Inr ws"
    "balances (ws ! i) ! j = item2\<lparr>slot_value := formatValue e raw (decimals item2)\<rparr>"
    by auto
  have "slot_value (balances (ws ! i) ! j) =
      (case raw of
         None \<Rightarrow> None
       | Some s \<Rightarrow> if s = [] then Some []
                   else Some (BigNumber_dividedBy_pow10 e s (decimals item2)))"
    by (simp add: ws(2) formatValue_def truthy_def split: option.splits)
  with ws(1) show "\<exists>ws. snd (getWealths e w mAddress) = Inr ws
      \<and> slot_value (balances (ws ! i) ! j) =
          (case raw of
             None \<Rightarrow> None
           | Some s \<Rightarrow> if s = [] then Some []
                       else Some (BigNumber_dividedBy_pow10 e s (decimals item2)))"
    by blast
qed

theorem C10_witness:
  "slot_value (nativeSlot ''ETH'') = Some []
   \<and> (\<exists>ws. snd (getWealths exampleEnv zksyncWorld ''0xABC'') = Inr ws
        \<and> slot_value (balances (ws ! 1) ! 0) = Some []
        \<and> slot_value (balances (ws ! 0) ! 0) = None)"
proof -
  have m: "getMakerList zksyncWorld = Inr [emptyEntry]"
    by (simp add: zksyncWorld_def offlineWorld_def)
  have r1: "snd (getTokenBalance exampleEnv zksyncWorld
            (wcMakerAddress (chainOf 33 ''zksync'' [nativeSlot ''ETH'']))
            (chainId (chainOf 33 ''zksync'' [nativeSlot ''ETH'']))
            (chainName (chainOf 33 ''zksync'' [nativeSlot ''ETH'']))
            (tokenAddress (nativeSlot ''ETH'')) (tokenName (nativeSlot ''ETH''))) = Some []"
    by (simp add: chainOf_def nativeSlot_def balance_zksync)
  have r0: "snd (getTokenBalance exampleEnv zksyncWorld
            (wcMakerAddress (chainOf 1 ''mainnet'' [nativeSlot ''ETH'']))
            (chainId (chainOf 1 ''mainnet'' [nativeSlot ''ETH'']))
            (chainName (chainOf 1 ''mainnet'' [nativeSlot ''ETH'']))
            (tokenAddress (nativeSlot ''ETH'')) (tokenName (nativeSlot ''ETH''))) = None"
    by (simp add: chainOf_def nativeSlot_def balance_zksync_mainnet)
  from m r1 have h1: "''0xABC'' \<noteq> [] \<and> getMakerList zksyncWorld = Inr [emptyEntry]
      \<and> 1 < length (shapeChains exampleEnv [emptyEntry] ''0xABC'')
      \<and> chainOf 33 ''zksync'' [nativeSlot ''ETH'']
          = shapeChains exampleEnv [emptyEntry] ''0xABC'' ! 1
      \<and> 0 < length (balances (chainOf 33 ''zksync'' [nativeSlot ''ETH'']))
      \<and> nativeSlot ''ETH'' = balances (chainOf 33 ''zksync'' [nativeSlot ''ETH'']) ! 0
      \<and> Some [] = snd (getTokenBalance exampleEnv zksyncWorld
            (wcMakerAddress (chainOf 33 ''zksync'' [nativeSlot ''ETH'']))
            (chainId (chainOf 33 ''zksync'' [nativeSlot ''ETH'']))
            (chainName (chainOf 33 ''zksync'' [nativeSlot ''ETH'']))
            (tokenAddress (nativeSlot ''ETH'')) (tokenName (nativeSlot ''ETH'')))"
    by (simp add: shape_empty balances_chainOf)
  from m r0 have h0: "''0xABC'' \<noteq> [] \<and> getMakerList zksyncWorld = Inr [emptyEntry]
      \<and> 0 < length (shapeChains exampleEnv [emptyEntry] ''0xABC'')
      \<and> chainOf 1 ''mainnet'' [nativeSlot ''ETH'']
          = shapeChains exampleEnv [emptyEntry] ''0xABC'' ! 0
      \<and> 0 < length (balances (chainOf 1 ''mainnet'' [nativeSlot ''ETH'']))
      \<and> nativeSlot ''ETH'' = balances (chainOf 1 ''mainnet'' [nativeSlot ''ETH'']) ! 0
      \<and> None = snd (getTokenBalance exampleEnv zksyncWorld
            (wcMakerAddress (chainOf 1 ''mainnet'' [nativeSlot ''ETH'']))
            (chainId (chainOf 1 ''mainnet'' [nativeSlot ''ETH'']))
            (chainName (chainOf 1 ''mainnet'' [nativeSlot ''ETH'']))
            (tokenAddress (nativeSlot ''ETH'')) (tokenName (nativeSlot ''ETH'')))"
    by (simp add: shape_empty balances_chainOf)
  from C10_only_truthy_values_divided [where mAddress = "''0xABC''" and w = zksyncWorld and makerList = "[emptyEntry]"
      and i = 1 and j = 0 and e = exampleEnv
      and item = "chainOf 33 ''zksync'' [nativeSlot ''ETH'']" and ?item2.0 = "nativeSlot ''ETH''"
      and raw = "Some []", THEN mp, OF h1]
    C10_only_truthy_values_divided [where mAddress = "''0xABC''" and w = zksyncWorld and makerList = "[emptyEntry]"
      and i = 0 and j = 0 and e = exampleEnv
      and item = "chainOf 1 ''mainnet'' [nativeSlot ''ETH'']" and ?item2.0 = "nativeSlot ''ETH''"
      and raw = None, THEN mp, OF h0]
  show ?thesis by auto
qed


text \<open>
  C7 (as the code has it). The value of a slot is the empty string, not \<^verbatim>\<open>undefined\<close>,
  from the moment \<^verbatim>\<open>getWealthsChains\<close> builds the slot. \<^verbatim>\<open>getWealths\<close> returns the same
  chains and slots with nothing but the values changed, and the value of each slot is then
  what its own fetch gave: \<^verbatim>\<open>undefined\<close> when \<^verbatim>\<open>getTokenBalance\<close> returned
  \<^verbatim>\<open>undefined\<close>, the empty string when it returned the empty string, and otherwise the
  string the division makes of the raw value it returned.
\<close>

theorem C7_value_empty_then_assigned:
  "mAddress \<noteq> [] \<and> getMakerList w = Inr makerList
     \<and> i < length (shapeChains e makerList mAddress)
     \<and> item = shapeChains e makerList mAddress ! i
     \<and> j < length (balances item) \<and> item2 = balances item ! j
     \<and> raw = snd (getTokenBalance e w (wcMakerAddress item) (chainId item) (chainName item)
                (tokenAddress item2) (tokenName item2))
   \<longrightarrow> getWealthsChains e w mAddress
         = ([Call GetMakerList], Inr (shapeChains e makerList mAddress))
     \<and> slot_value item2 = Some []
     \<and> (\<exists>ws. snd (getWealths e w mAddress) = Inr ws
          \<and> length ws = length (shapeChains e makerList mAddress)
          \<and> ws ! i = item\<lparr>balances := balances (ws ! i)\<rparr>
          \<and> length (balances (ws ! i)) = length (balances item)
          \<and> balances (ws ! i) ! j =
              item2\<lparr>slot_value :=
                (case raw of
                   None \<Rightarrow> None
                 | Some s \<Rightarrow> if s = [] then Some []
                             else Some (BigNumber_dividedBy_pow10 e s (decimals item2)))\<rparr>)"
proof (intro impI conjI)
  assume a: "mAddress \<noteq> [] \<and> getMakerList w = Inr makerList
     \<and> i < length (shapeChains e makerList mAddress)
     \<and> item = shapeChains e makerList mAddress ! i
     \<and> j < length (balances item) \<and> item2 = balances item ! j
     \<and> raw = snd (getTokenBalance e w (wcMakerAddress item) (chainId item) (chainName item)
                (tokenAddress item2) (tokenName item2))"
  then show "getWealthsChains e w mAddress
      = ([Call GetMakerList], Inr (shapeChains e makerList mAddress))"
    by (simp add: getWealthsChains_def truthy_def)
  from a show "slot_value item2 = Some []"
    using shaped_slot_empty [of i e makerList mAddress j] by blast
  from a fetched_slot [of mAddress w makerList i e item j item2]
  obtain ws where ws: "snd (getWealths e w mAddress) = Inr ws"
    "length ws = length (shapeChains e makerList mAddress)"
    "ws ! i = item\<lparr>balances := balances (ws ! i)\<rparr>"
    "length (balances (ws ! i)) = length (balances item)"
    "balances (ws ! i) ! j = item2\<lparr>slot_value := formatValue e raw (decimals item2)\<rparr>"
    by blast
  have "formatValue e raw (decimals item2) =
      (case raw of
         None \<Rightarrow> None
       | Some s \<Rightarrow> if s = [] then Some []
                   else Some (BigNumber_dividedBy_pow10 e s (decimals item2)))"
    by (simp add: formatValue_def truthy_def split: option.splits)
  with ws show "\<exists>ws. snd (getWealths e w mAddress) = Inr ws
      \<and> length ws = length (shapeChains e makerList mAddress)
      \<and> ws ! i = item\<lparr>balances := balances (ws ! i)\<rparr>
      \<and> length (balances (ws ! i)) = length (balances item)
      \<and> balances (ws ! i) ! j =
          item2\<lparr>slot_value :=
            (case raw of
               None \<Rightarrow> None
             | Some s \<Rightarrow> if s = [] then Some []
                         else Some (BigNumber_dividedBy_pow10 e s (decimals item2)))\<rparr>"
    by auto
qed

theorem C7_witness:
  "getWealthsChains exampleEnv richWorld ''0xABC''
     = ([Call GetMakerList],
        Inr [chainOf 1 ''mainnet'' [nativeSlot ''ETH''],
             chainOf 137 ''polygon'' [nativeSlot ''ETH'', tokenSlot18]])
   \<and> slot_value (nativeSlot ''ETH'') = Some []
   \<and> slot_value tokenSlot18 = Some []
   \<and> (\<exists>ws. snd (getWealths exampleEnv richWorld ''0xABC'') = Inr ws
        \<and> length ws = 2
        \<and> ws ! 0 = chainOf 1 ''mainnet'' (balances (ws ! 0))
        \<and> length (balances (ws ! 0)) = 1
        \<and> balances (ws ! 0) ! 0 = (nativeSlot ''ETH'')\<lparr>slot_value := Some ''1.5''\<rparr>
        \<and> ws ! 1 = chainOf 137 ''polygon'' (balances (ws ! 1))
        \<and> length (balances (ws ! 1)) = 2
        \<and> balances (ws ! 1) ! 1 = tokenSlot18\<lparr>slot_value := None\<rparr>)"
proof -
  have m: "getMakerList richWorld = Inr [scenarioEntry]"
    by (simp add: richWorld_def offlineWorld_def)
  have s: "shapeChains exampleEnv [scenarioEntry] ''0xABC'' =
      [chainOf 1 ''mainnet'' [nativeSlot ''ETH''],
       chainOf 137 ''polygon'' [nativeSlot ''ETH'', tokenSlot18]]"
    by (simp add: shape_scenario tokenSlot18_def)
  have r0: "Some ''1500000000000000000'' = snd (getTokenBalance exampleEnv richWorld
      (wcMakerAddress (chainOf 1 ''mainnet'' [nativeSlot ''ETH'']))
      (chainId (chainOf 1 ''mainnet'' [nativeSlot ''ETH'']))
      (chainName (chainOf 1 ''mainnet'' [nativeSlot ''ETH'']))
      (tokenAddress (nativeSlot ''ETH'')) (tokenName (nativeSlot ''ETH'')))"
    by (simp add: chainOf_def nativeSlot_def balance_rich)
  have r1: "None = snd (getTokenBalance exampleEnv richWorld
      (wcMakerAddress (chainOf 137 ''polygon'' [nativeSlot ''ETH'', tokenSlot18]))
      (chainId (chainOf 137 ''polygon'' [nativeSlot ''ETH'', tokenSlot18]))
      (chainName (chainOf 137 ''polygon'' [nativeSlot ''ETH'', tokenSlot18]))
      (tokenAddress tokenSlot18) (tokenName tokenSlot18))"
    by (simp add: chainOf_def tokenSlot18_def getTokenBalance_def try_rich_token)
  from m r0 have h0: "''0xABC'' \<noteq> [] \<and> getMakerList richWorld = Inr [scenarioEntry]
      \<and> 0 < length (shapeChains exampleEnv [scenarioEntry] ''0xABC'')
      \<and> chainOf 1 ''mainnet'' [nativeSlot ''ETH'']
          = shapeChains exampleEnv [scenarioEntry] ''0xABC'' ! 0
      \<and> 0 < length (balances (chainOf 1 ''mainnet'' [nativeSlot ''ETH'']))
      \<and> nativeSlot ''ETH'' = balances (chainOf 1 ''mainnet'' [nativeSlot ''ETH'']) ! 0
      \<and> Some ''1500000000000000000'' = snd (getTokenBalance exampleEnv richWorld
          (wcMakerAddress (chainOf 1 ''mainnet'' [nativeSlot ''ETH'']))
          (chainId (chainOf 1 ''mainnet'' [nativeSlot ''ETH'']))
          (chainName (chainOf 1 ''mainnet'' [nativeSlot ''ETH'']))
          (tokenAddress (nativeSlot ''ETH'')) (tokenName (nativeSlot ''ETH'')))"
    by (simp add: s balances_chainOf)
  from m r1 have h1: "''0xABC'' \<noteq> [] \<and> getMakerList richWorld = Inr [scenarioEntry]
      \<and> 1 < length (shapeChains exampleEnv [scenarioEntry] ''0xABC'')
      \<and> chainOf 137 ''polygon'' [nativeSlot ''ETH'', tokenSlot18]
          = shapeChains exampleEnv [scenarioEntry] ''0xABC'' ! 1
      \<and> 1 < length (balances (chainOf 137 ''polygon'' [nativeSlot ''ETH'', tokenSlot18]))
      \<and> tokenSlot18 = balances (chainOf 137 ''polygon'' [nativeSlot ''ETH'', tokenSlot18]) ! 1
      \<and> None = snd (getTokenBalance exampleEnv richWorld
          (wcMakerAddress (chainOf 137 ''polygon'' [nativeSlot ''ETH'', tokenSlot18]))
          (chainId (chainOf 137 ''polygon'' [nativeSlot ''ETH'', tokenSlot18]))
          (chainName (chainOf 137 ''polygon'' [nativeSlot ''ETH'', tokenSlot18]))
          (tokenAddress tokenSlot18) (tokenName tokenSlot18))"
    by (simp add: s balances_chainOf)
  have d: "BigNumber_dividedBy_pow10 exampleEnv ''1500000000000000000''
      (decimals (nativeSlot ''ETH'')) = ''1.5''"
    by (simp add: exampleEnv_BigNumber nativeSlot_def dividedBy_pow10_one_and_a_half)
  from C7_value_empty_then_assigned [where mAddress = "''0xABC''" and w = richWorld
      and makerList = "[scenarioEntry]" and i = 0 and j = 0 and e = exampleEnv
      and item = "chainOf 1 ''mainnet'' [nativeSlot ''ETH'']" and ?item2.0 = "nativeSlot ''ETH''"
      and raw = "Some ''1500000000000000000''", THEN mp, OF h0]
    C7_value_empty_then_assigned [where mAddress = "''0xABC''" and w = richWorld
      and makerList = "[scenarioEntry]" and i = 1 and j = 1 and e = exampleEnv
      and item = "chainOf 137 ''polygon'' [nativeSlot ''ETH'', tokenSlot18]"
      and ?item2.0 = tokenSlot18 and raw = None, THEN mp, OF h1]
  show ?thesis
    by (auto simp: s d chainOf_def)
qed

text \<open>The claim as stated fails twice on the scenario with every balance service down:
  before the fetch the values are the empty string, not \<^verbatim>\<open>undefined\<close>; after the fetch
  they are \<^verbatim>\<open>undefined\<close>, neither the empty string nor a number.\<close>

theorem C7_counterexample:
  "snd (getWealthsChains exampleEnv (offlineWorld [scenarioEntry]) ''0xABC'') =
     Inr [\<lparr>chainId = 1, chainName = ''mainnet'', wcMakerAddress = ''0xABC'',
           balances = [\<lparr>tokenAddress = [], tokenName = ''ETH'', slot_value = Some [],
                        decimals = 18\<rparr>]\<rparr>,
          \<lparr>chainId = 137, chainName = ''polygon'', wcMakerAddress = ''0xABC'',
           balances = [\<lparr>tokenAddress = [], tokenName = ''ETH'', slot_value = Some [],
                        decimals = 18\<rparr>,
                       \<lparr>tokenAddress = ''0xTOKEN'', tokenName = ''ETH'', slot_value = Some [],
                        decimals = 18\<rparr>]\<rparr>]
   \<and> snd (getWealths exampleEnv (offlineWorld [scenarioEntry]) ''0xABC'') =
     Inr [\<lparr>chainId = 1, chainName = ''mainnet'', wcMakerAddress = ''0xABC'',
           balances = [\<lparr>tokenAddress = [], tokenName = ''ETH'', slot_value = None,
                        decimals = 18\<rparr>]\<rparr>,
          \<lparr>chainId = 137, chainName = ''polygon'', wcMakerAddress = ''0xABC'',
           balances = [\<lparr>tokenAddress = [], tokenName = ''ETH'', slot_value = None,
                        decimals = 18\<rparr>,
                       \<lparr>tokenAddress = ''0xTOKEN'', tokenName = ''ETH'', slot_value = None,
                        decimals = 18\<rparr>]\<rparr>]"
proof -
  have w: "getMakerList (offlineWorld [scenarioEntry]) = Inr [scenarioEntry]"
    by (simp add: offlineWorld_def)
  have s: "getWealthsChains exampleEnv (offlineWorld [scenarioEntry]) ''0xABC''
      = ([Call GetMakerList], Inr (shapeChains exampleEnv [scenarioEntry] ''0xABC''))"
    by (simp add: getWealthsChains_def truthy_def w)
  show ?thesis
    unfolding getWealths_def s shape_scenario
    by (simp add: fetchChain_def promiseItem_def getTokenBalance_def tryBalance_def
        defaultBalance_def formatValue_def truthy_def Let_def
        exampleEnv_def offlineWorld_def chainOf_def nativeSlot_def)
qed


text \<open>
  What a throw in the \<^verbatim>\<open>try\<close> block of \<^verbatim>\<open>getTokenBalance\<close> does, for the slot at
  position \<open>j\<close> of chain \<open>i\<close>: the error is caught and logged with chain id, maker address
  and token name, and \<^verbatim>\<open>getTokenBalance\<close> returns the value the block had reached,
  \<^verbatim>\<open>undefined\<close> in every family but loopring, \<^verbatim>\<open>undefined\<close> or \<^verbatim>\<open>'0'\<close> in the loopring
  family. \<^verbatim>\<open>getWealths\<close> is not rejected: it returns as many chains and slots as were
  shaped, and every slot, the siblings of the failed one among them, holds what
  \<^verbatim>\<open>promiseItem\<close> makes of the result of its own fetch.
\<close>

lemma fault_caught_per_slot:
  "mAddress \<noteq> [] \<and> getMakerList w = Inr makerList
     \<and> i < length (shapeChains e makerList mAddress)
     \<and> item = shapeChains e makerList mAddress ! i
     \<and> j < length (balances item) \<and> item2 = balances item ! j
     \<and> tryBalance e w (wcMakerAddress item) (chainId item) (chainName item)
          (tokenAddress item2) (tokenName item2) = (evs, v, Some msg)
   \<longrightarrow> getTokenBalance e w (wcMakerAddress item) (chainId item) (chainName item)
          (tokenAddress item2) (tokenName item2)
         = (evs @ [ErrorLog (chainId item) (wcMakerAddress item) (tokenName item2) msg], v)
     \<and> (CHAIN_INDEX e (chainId item) \<noteq> Some ''loopring'' \<longrightarrow> v = None)
     \<and> (CHAIN_INDEX e (chainId item) = Some ''loopring'' \<longrightarrow> v = None \<or> v = Some ''0'')
     \<and> (\<exists>ws. snd (getWealths e w mAddress) = Inr ws
          \<and> length ws = length (shapeChains e makerList mAddress)
          \<and> slot_value (balances (ws ! i) ! j) = formatValue e v (decimals item2)
          \<and> (v = None \<longrightarrow> slot_value (balances (ws ! i) ! j) = None)
          \<and> (\<forall>i' j'. i' < length (shapeChains e makerList mAddress)
                \<and> j' < length (balances (shapeChains e makerList mAddress ! i')) \<longrightarrow>
              length (balances (ws ! i'))
                = length (balances (shapeChains e makerList mAddress ! i'))
              \<and> balances (ws ! i') ! j' =
                  (balances (shapeChains e makerList mAddress ! i') ! j')
                    \<lparr>slot_value := formatValue e
                       (snd (getTokenBalance e w
                          (wcMakerAddress (shapeChains e makerList mAddress ! i'))
                          (chainId (shapeChains e makerList mAddress ! i'))
                          (chainName (shapeChains e makerList mAddress ! i'))
                          (tokenAddress (balances (shapeChains e makerList mAddress ! i') ! j'))
                          (tokenName (balances (shapeChains e makerList mAddress ! i') ! j'))))
                       (decimals (balances (shapeChains e makerList mAddress ! i') ! j'))\<rparr>))"
proof (intro impI)
  assume a: "mAddress \<noteq> [] \<and> getMakerList w = Inr makerList
     \<and> i < length (shapeChains e makerList mAddress)
     \<and> item = shapeChains e makerList mAddress ! i
     \<and> j < length (balances item) \<and> item2 = balances item ! j
     \<and> tryBalance e w (wcMakerAddress item) (chainId item) (chainName item)
          (tokenAddress item2) (tokenName item2) = (evs, v, Some msg)"
  then have t: "tryBalance e w (wcMakerAddress item) (chainId item) (chainName item)
          (tokenAddress item2) (tokenName item2) = (evs, v, Some msg)"
    by blast
  then have g: "getTokenBalance e w (wcMakerAddress item) (chainId item) (chainName item)
          (tokenAddress item2) (tokenName item2)
         = (evs @ [ErrorLog (chainId item) (wcMakerAddress item) (tokenName item2) msg], v)"
    by (simp add: getTokenBalance_def)
  from tryBalance_thrown [OF t]
  have c: "v = None \<or> (CHAIN_INDEX e (chainId item) = Some ''loopring'' \<and> v = Some ''0'')" .
  from a fetched_slots [of mAddress w makerList e]
  obtain ws where ws: "snd (getWealths e w mAddress) = Inr ws"
    "length ws = length (shapeChains e makerList mAddress)"
    and all: "\<forall>i' j'. i' < length (shapeChains e makerList mAddress)
          \<and> j' < length (balances (shapeChains e makerList mAddress ! i')) \<longrightarrow>
        length (balances (ws ! i'))
          = length (balances (shapeChains e makerList mAddress ! i'))
        \<and> balances (ws ! i') ! j' =
            (balances (shapeChains e makerList mAddress ! i') ! j')
              \<lparr>slot_value := formatValue e
                 (snd (getTokenBalance e w
                    (wcMakerAddress (shapeChains e makerList mAddress ! i'))
                    (chainId (shapeChains e makerList mAddress ! i'))
                    (chainName (shapeChains e makerList mAddress ! i'))
                    (tokenAddress (balances (shapeChains e makerList mAddress ! i') ! j'))
                    (tokenName (balances (shapeChains e makerList mAddress ! i') ! j'))))
                 (decimals (balances (shapeChains e makerList mAddress ! i') ! j'))\<rparr>"
    by blast
  from a all [rule_format, of i j] g
  have own: "slot_value (balances (ws ! i) ! j) = formatValue e v (decimals item2)"
    by auto
  then have n: "v = None \<longrightarrow> slot_value (balances (ws ! i) ! j) = None"
    by (simp add: formatValue_def)
  from g c ws own n all show "getTokenBalance e w (wcMakerAddress item) (chainId item)
          (chainName item) (tokenAddress item2) (tokenName item2)
         = (evs @ [ErrorLog (chainId item) (wcMakerAddress item) (tokenName item2) msg], v)
     \<and> (CHAIN_INDEX e (chainId item) \<noteq> Some ''loopring'' \<longrightarrow> v = None)
     \<and> (CHAIN_INDEX e (chainId item) = Some ''loopring'' \<longrightarrow> v = None \<or> v = Some ''0'')
     \<and> (\<exists>ws. snd (getWealths e w mAddress) = Inr ws
          \<and> length ws = length (shapeChains e makerList mAddress)
          \<and> slot_value (balances (ws ! i) ! j) = formatValue e v (decimals item2)
          \<and> (v = None \<longrightarrow> slot_value (balances (ws ! i) ! j) = None)
          \<and> (\<forall>i' j'. i' < length (shapeChains e makerList mAddress)
                \<and> j' < length (balances (shapeChains e makerList mAddress ! i')) \<longrightarrow>
              length (balances (ws ! i'))
                = length (balances (shapeChains e makerList mAddress ! i'))
              \<and> balances (ws ! i') ! j' =
                  (balances (shapeChains e makerList mAddress ! i') ! j')
                    \<lparr>slot_value := formatValue e
                       (snd (getTokenBalance e w
                          (wcMakerAddress (shapeChains e makerList mAddress ! i'))
                          (chainId (shapeChains e makerList mAddress ! i'))
                          (chainName (shapeChains e makerList mAddress ! i'))
                          (tokenAddress (balances (shapeChains e makerList mAddress ! i') ! j'))
                          (tokenName (balances (shapeChains e makerList mAddress ! i') ! j'))))
                       (decimals (balances (shapeChains e makerList mAddress ! i') ! j'))\<rparr>))"
    by blast
qed

lemma fault_caught_per_slot_example:
  "getTokenBalance exampleEnv richWorld ''0xABC'' 137 ''polygon'' ''0xTOKEN'' ''ETH''
     = ([Call (AlchemyGetTokenBalances ''https://polygon'' ''0xABC'' [''0xTOKEN'']),
         ErrorLog 137 ''0xABC'' ''ETH'' ''offline''], None)
   \<and> (\<exists>ws. snd (getWealths exampleEnv richWorld ''0xABC'') = Inr ws
        \<and> length ws = 2
        \<and> slot_value (balances (ws ! 1) ! 1) = None
        \<and> slot_value (balances (ws ! 0) ! 0) = Some ''1.5''
        \<and> slot_value (balances (ws ! 1) ! 0) = Some ''1.5'')
   \<and> (\<exists>ws. snd (getWealths exampleEnv loopringWorld ''0xABC'') = Inr ws
        \<and> slot_value (balances (ws ! 0) ! 0) = Some ''0'')"
proof (intro conjI)
  have m: "getMakerList richWorld = Inr [scenarioEntry]"
    by (simp add: richWorld_def offlineWorld_def)
  have s: "shapeChains exampleEnv [scenarioEntry] ''0xABC'' =
      [chainOf 1 ''mainnet'' [nativeSlot ''ETH''],
       chainOf 137 ''polygon'' [nativeSlot ''ETH'', tokenSlot18]]"
    by (simp add: shape_scenario tokenSlot18_def)
  have h: "''0xABC'' \<noteq> [] \<and> getMakerList richWorld = Inr [scenarioEntry]
      \<and> 1 < length (shapeChains exampleEnv [scenarioEntry] ''0xABC'')
      \<and> chainOf 137 ''polygon'' [nativeSlot ''ETH'', tokenSlot18]
          = shapeChains exampleEnv [scenarioEntry] ''0xABC'' ! 1
      \<and> 1 < length (balances (chainOf 137 ''polygon'' [nativeSlot ''ETH'', tokenSlot18]))
      \<and> tokenSlot18 = balances (chainOf 137 ''polygon'' [nativeSlot ''ETH'', tokenSlot18]) ! 1
      \<and> tryBalance exampleEnv richWorld
          (wcMakerAddress (chainOf 137 ''polygon'' [nativeSlot ''ETH'', tokenSlot18]))
          (chainId (chainOf 137 ''polygon'' [nativeSlot ''ETH'', tokenSlot18]))
          (chainName (chainOf 137 ''polygon'' [nativeSlot ''ETH'', tokenSlot18]))
          (tokenAddress tokenSlot18) (tokenName tokenSlot18)
        = ([Call (AlchemyGetTokenBalances ''https://polygon'' ''0xABC'' [''0xTOKEN''])],
           None, Some ''offline'')"
    by (simp add: m s balances_chainOf)
       (simp add: chainOf_def tokenSlot18_def try_rich_token)
  note t = fault_caught_per_slot [where mAddress = "''0xABC''" and w = richWorld
      and makerList = "[scenarioEntry]" and i = 1 and j = 1 and e = exampleEnv
      and item = "chainOf 137 ''polygon'' [nativeSlot ''ETH'', tokenSlot18]"
      and ?item2.0 = tokenSlot18, THEN mp, OF h]
  from t [THEN conjunct1]
  show "getTokenBalance exampleEnv richWorld ''0xABC'' 137 ''polygon'' ''0xTOKEN'' ''ETH''
     = ([Call (AlchemyGetTokenBalances ''https://polygon'' ''0xABC'' [''0xTOKEN'']),
         ErrorLog 137 ''0xABC'' ''ETH'' ''offline''], None)"
    by (simp add: chainOf_def tokenSlot18_def)
  from t [THEN conjunct2, THEN conjunct2, THEN conjunct2]
  obtain ws where ws: "snd (getWealths exampleEnv richWorld ''0xABC'') = Inr ws"
    "length ws = length (shapeChains exampleEnv [scenarioEntry] ''0xABC'')"
    "slot_value (balances (ws ! 1) ! 1) = formatValue exampleEnv None (decimals tokenSlot18)"
    and all: "\<And>i' j'. i' < length (shapeChains exampleEnv [scenarioEntry] ''0xABC'')
          \<and> j' < length (balances (shapeChains exampleEnv [scenarioEntry] ''0xABC'' ! i')) \<Longrightarrow>
        balances (ws ! i') ! j' =
            (balances (shapeChains exampleEnv [scenarioEntry] ''0xABC'' ! i') ! j')
              \<lparr>slot_value := formatValue exampleEnv
                 (snd (getTokenBalance exampleEnv richWorld
                    (wcMakerAddress (shapeChains exampleEnv [scenarioEntry] ''0xABC'' ! i'))
                    (chainId (shapeChains exampleEnv [scenarioEntry] ''0xABC'' ! i'))
                    (chainName (shapeChains exampleEnv [scenarioEntry] ''0xABC'' ! i'))
                    (tokenAddress (balances (shapeChains exampleEnv [scenarioEntry] ''0xABC'' ! i') ! j'))
                    (tokenName (balances (shapeChains exampleEnv [scenarioEntry] ''0xABC'' ! i') ! j'))))
                 (decimals (balances (shapeChains exampleEnv [scenarioEntry] ''0xABC'' ! i') ! j'))\<rparr>"
    by blast
  have a: "slot_value (balances (ws ! 0) ! 0) = Some ''1.5''"
    using all [of 0 0]
    by (simp add: s chainOf_def nativeSlot_def balance_rich format_rich)
  have b: "slot_value (balances (ws ! 1) ! 0) = Some ''1.5''"
    using all [of 1 0]
    by (simp add: s chainOf_def nativeSlot_def balance_rich_polygon format_rich)
  from ws a b show "\<exists>ws. snd (getWealths exampleEnv richWorld ''0xABC'') = Inr ws
        \<and> length ws = 2
        \<and> slot_value (balances (ws ! 1) ! 1) = None
        \<and> slot_value (balances (ws ! 0) ! 0) = Some ''1.5''
        \<and> slot_value (balances (ws ! 1) ! 0) = Some ''1.5''"
    by (simp add: s formatValue_def)
next
  have m: "getMakerList loopringWorld = Inr [loopringEntry]"
    by (simp add: loopringWorld_def offlineWorld_def)
  have h: "''0xABC'' \<noteq> []
      \<and> getMakerList loopringWorld = Inr [loopringEntry]
      \<and> 0 < length (shapeChains exampleEnv [loopringEntry] ''0xABC'')
      \<and> chainOf 99 ''loopring'' [nativeSlot ''ETH'']
          = shapeChains exampleEnv [loopringEntry] ''0xABC'' ! 0
      \<and> 0 < length (balances (chainOf 99 ''loopring'' [nativeSlot ''ETH'']))
      \<and> nativeSlot ''ETH'' = balances (chainOf 99 ''loopring'' [nativeSlot ''ETH'']) ! 0
      \<and> tryBalance exampleEnv loopringWorld
          (wcMakerAddress (chainOf 99 ''loopring'' [nativeSlot ''ETH'']))
          (chainId (chainOf 99 ''loopring'' [nativeSlot ''ETH'']))
          (chainName (chainOf 99 ''loopring'' [nativeSlot ''ETH'']))
          (tokenAddress (nativeSlot ''ETH'')) (tokenName (nativeSlot ''ETH''))
        = ([Call (LoopringAccount ''https://loopring-test'' ''0xABC''),
            Call (LoopringBalances ''https://loopring-test'' (Some 7))],
           Some ''0'', Some ''TypeError'')"
    by (simp add: m shape_loopring balances_chainOf)
       (simp add: chainOf_def nativeSlot_def try_loopring)
  from fault_caught_per_slot [where mAddress = "''0xABC''" and w = loopringWorld
      and makerList = "[loopringEntry]" and i = 0 and j = 0 and e = exampleEnv
      and item = "chainOf 99 ''loopring'' [nativeSlot ''ETH'']"
      and ?item2.0 = "nativeSlot ''ETH''", THEN mp, OF h,
      THEN conjunct2, THEN conjunct2, THEN conjunct2]
  show "\<exists>ws. snd (getWealths exampleEnv loopringWorld ''0xABC'') = Inr ws
        \<and> slot_value (balances (ws ! 0) ! 0) = Some ''0''"
    by (auto simp: nativeSlot_def format_zero)
qed

text \<open>
  C5 fails on the code in the loopring family. An answer of status 200 whose body is no
  array sets \<^verbatim>\<open>value = '0'\<close>, and the two \<^verbatim>\<open>if\<close>s do not leave the block, so the read of
  \<^verbatim>\<open>balanceMap.total\<close> throws next. The error is caught and logged, but
  \<^verbatim>\<open>getTokenBalance\<close> returns \<^verbatim>\<open>'0'\<close> and \<^verbatim>\<open>getWealths\<close> stores the slot as \<^verbatim>\<open>0\<close>, a
  balance of zero, where the claim has no value. In the same run the slot of chain 1, whose
  balance service is down, is left without a value, as in every other branch.
\<close>

theorem C5_loopring_fault_keeps_zero:
  "getTokenBalance exampleEnv loopringWorld ''0xABC'' 99 ''loopring'' [] ''ETH'' =
     ([Call (LoopringAccount ''https://loopring-test'' ''0xABC''),
       Call (LoopringBalances ''https://loopring-test'' (Some 7)),
       ErrorLog 99 ''0xABC'' ''ETH'' ''TypeError''],
      Some ''0'')
   \<and> snd (getWealths exampleEnv loopringWorld ''0xABC'') =
     Inr [\<lparr>chainId = 99, chainName = ''loopring'', wcMakerAddress = ''0xABC'',
           balances = [\<lparr>tokenAddress = [], tokenName = ''ETH'', slot_value = Some ''0'',
                        decimals = 18\<rparr>]\<rparr>,
          \<lparr>chainId = 1, chainName = ''mainnet'', wcMakerAddress = ''0xABC'',
           balances = [\<lparr>tokenAddress = [], tokenName = ''ETH'', slot_value = None,
                        decimals = 18\<rparr>]\<rparr>]"
proof -
  have w: "getMakerList loopringWorld = Inr [loopringEntry]"
    by (simp add: loopringWorld_def offlineWorld_def)
  have s: "getWealthsChains exampleEnv loopringWorld ''0xABC''
      = ([Call GetMakerList], Inr (shapeChains exampleEnv [loopringEntry] ''0xABC''))"
    by (simp add: getWealthsChains_def truthy_def w)
  note z = dividedBy_pow10_zero [of 18]
  have g: "getTokenBalance exampleEnv loopringWorld ''0xABC'' 99 ''loopring'' [] ''ETH'' =
     ([Call (LoopringAccount ''https://loopring-test'' ''0xABC''),
       Call (LoopringBalances ''https://loopring-test'' (Some 7)),
       ErrorLog 99 ''0xABC'' ''ETH'' ''TypeError''],
      Some ''0'')"
    by (simp add: getTokenBalance_def tryBalance_def loopringBalance_def loopringValue_def
        typeError_def Let_def exampleEnv_def loopringWorld_def offlineWorld_def)
  have g1: "getTokenBalance exampleEnv loopringWorld ''0xABC'' 1 ''mainnet'' [] ''ETH'' =
     ([Call (AlchemyGetBalance ''https://eth'' ''0xABC''),
       ErrorLog 1 ''0xABC'' ''ETH'' ''offline''], None)"
    by (simp add: getTokenBalance_def tryBalance_def defaultBalance_def truthy_def
        Let_def exampleEnv_def loopringWorld_def offlineWorld_def)
  have "snd (getWealths exampleEnv loopringWorld ''0xABC'') =
     Inr [\<lparr>chainId = 99, chainName = ''loopring'', wcMakerAddress = ''0xABC'',
           balances = [\<lparr>tokenAddress = [], tokenName = ''ETH'', slot_value = Some ''0'',
                        decimals = 18\<rparr>]\<rparr>,
          \<lparr>chainId = 1, chainName = ''mainnet'', wcMakerAddress = ''0xABC'',
           balances = [\<lparr>tokenAddress = [], tokenName = ''ETH'', slot_value = None,
                        decimals = 18\<rparr>]\<rparr>]"
    unfolding getWealths_def s shape_loopring
    by (simp add: fetchChain_def promiseItem_def g g1 formatValue_def truthy_def
        chainOf_def nativeSlot_def z exampleEnv_BigNumber)
  with g show ?thesis by blast
qed




end
